theory Spec2Isabelle
  imports Main
begin

section \<open>Scoring of delay-discounting data: the batch notebook\<close>

text \<open>
  The development follows \<^verbatim>\<open>analysis/02_score_discounting_data.ipynb\<close>: the filename
  parser, the per-file loop that fits four discount functions, and the export loop
  that concatenates and writes one table per discount function.
\<close>

subsection \<open>Errors\<close>

text \<open>
  Nothing in the notebook catches an exception, so every exception ends the run.
  \<open>ValueError\<close> carries Python's message; \<open>TypeError\<close>, \<open>IndexError\<close> and
  \<open>AttributeError\<close> are the other exceptions that the statements of the notebook
  can raise themselves; \<open>LibraryError\<close> stands for whatever
  an imported package raises.
\<close>

datatype error =
    ValueError string
  | TypeError
  | IndexError
  | AttributeError
  | LibraryError string

subsection \<open>Strings and paths\<close>

text \<open>\<^verbatim>\<open>p.rfind(sep) + 1\<close>: one past the last occurrence of \<open>sep\<close>, and 0 when there is none.\<close>

fun rfind_succ :: "char \<Rightarrow> string \<Rightarrow> nat" where
  "rfind_succ sep [] = 0"
| "rfind_succ sep (x # xs) =
     (let r = rfind_succ sep xs
      in if r \<noteq> 0 then Suc r else if x = sep then 1 else 0)"

definition rstrip :: "char \<Rightarrow> string \<Rightarrow> string" where
  "rstrip sep s = rev (dropWhile (\<lambda>x. x = sep) (rev s))"

text \<open>
  \<^verbatim>\<open>os.path.split\<close> of \<^verbatim>\<open>posixpath\<close> (the notebook writes its paths with \<^verbatim>\<open>/\<close>):
  \<^verbatim>\<open>
  i = p.rfind(sep) + 1
  head, tail = p[:i], p[i:]
  if head and head != sep*len(head):
      head = head.rstrip(sep)
  return head, tail
  \<close>
\<close>

definition os_path_split :: "string \<Rightarrow> string \<times> string" where
  "os_path_split p =
     (let sep = CHR ''/'';
          i = rfind_succ sep p;
          head = take i p;
          tail = drop i p
      in (if head \<noteq> [] \<and> head \<noteq> replicate (length head) sep
          then rstrip sep head else head, tail))"

text \<open>
  \<^verbatim>\<open>s.split(sep)\<close> for a one-character separator: every occurrence of the separator
  ends a field, so the result has one field more than there are separators and is
  never empty.
\<close>

fun str_split :: "char \<Rightarrow> string \<Rightarrow> string list" where
  "str_split sep [] = [[]]"
| "str_split sep (x # xs) =
     (if x = sep then [] # str_split sep xs
      else (case str_split sep xs of
              [] \<Rightarrow> [[x]]
            | w # ws \<Rightarrow> (x # w) # ws))"

text \<open>Decimal digits of a natural number, for the messages of the unpacking error.\<close>

fun digit_char :: "nat \<Rightarrow> char" where
  "digit_char n = char_of (48 + n mod 10)"

function str_of_nat :: "nat \<Rightarrow> string" where
  "str_of_nat n = (if n < 10 then [digit_char n] else str_of_nat (n div 10) @ [digit_char n])"
  by pat_completeness auto
termination
  by (relation "measure id") auto

declare str_of_nat.simps [simp del]

subsection \<open>The filename parser\<close>

text \<open>
  \<^verbatim>\<open>
  def parse_filename(fname):
      path, file = os.path.split(fname)
      initials, commodity, condition, date, time = file.split('-')
      return (initials, commodity, condition)
  \<close>
  The tuple assignment raises \<open>ValueError\<close> unless the right-hand side has exactly
  five elements.
\<close>

fun unpack5 :: "string list \<Rightarrow> error + (string \<times> string \<times> string \<times> string \<times> string)" where
  "unpack5 [a, b, c, d, e] = Inr (a, b, c, d, e)"
| "unpack5 xs =
     (if length xs < 5
      then Inl (ValueError (''not enough values to unpack (expected 5, got ''
                             @ str_of_nat (length xs) @ '')''))
      else Inl (ValueError ''too many values to unpack (expected 5)''))"

definition parse_filename :: "string \<Rightarrow> error + (string \<times> string \<times> string)" where
  "parse_filename fname =
     (let (path, file) = os_path_split fname
      in case unpack5 (str_split CHR ''-'' file) of
           Inl err \<Rightarrow> Inl err
         | Inr (initials, commodity, condition, date, time) \<Rightarrow>
             Inr (initials, commodity, condition))"

subsection \<open>Dictionaries and tables\<close>

text \<open>
  A Python dictionary keeps its keys in insertion order. Assigning to a key that is
  present replaces the value where the key stands; a new key goes to the end.
  \<^verbatim>\<open>d.update(other)\<close> assigns the entries of \<open>other\<close> one after another.
\<close>

fun dict_set :: "('k \<times> 'v) list \<Rightarrow> 'k \<Rightarrow> 'v \<Rightarrow> ('k \<times> 'v) list" where
  "dict_set [] k v = [(k, v)]"
| "dict_set ((k', v') # d) k v =
     (if k' = k then (k', v) # d else (k', v') # dict_set d k v)"

fun dict_update :: "('k \<times> 'v) list \<Rightarrow> ('k \<times> 'v) list \<Rightarrow> ('k \<times> 'v) list" where
  "dict_update d [] = d"
| "dict_update d ((k, v) # other) = dict_update (dict_set d k v) other"

text \<open>
  A cell of a table is a string, a number, or the missing value that pandas writes
  where a row has no entry for a column. Numbers are floats in the notebook; the
  notebook only moves them around, so their type is left open.
\<close>

datatype 'f cell = Str string | Num 'f | NaN

record 'f dataframe =
  columns :: "string list"
  rows :: "'f cell list list"

text \<open>
  \<^verbatim>\<open>pd.DataFrame.from_dict(info)\<close>, for a dictionary each of whose values holds one
  entry: one column per key, in the order of the keys, and a single row.
\<close>

definition from_dict :: "(string \<times> 'f cell) list \<Rightarrow> 'f dataframe" where
  "from_dict info = \<lparr>columns = map fst info, rows = [map snd info]\<rparr>"

text \<open>The entry of a row under a column name.\<close>

definition row_value :: "string list \<Rightarrow> 'f cell list \<Rightarrow> string \<Rightarrow> 'f cell option" where
  "row_value cols row c = map_of (zip cols row) c"

text \<open>
  \<^verbatim>\<open>pd.concat(objs, ignore_index=True)\<close>: an empty list raises \<open>ValueError\<close>. Otherwise
  the result has the union of the columns, each row keeps its entries under its own
  columns and gets the missing value elsewhere, and the rows are numbered afresh.
  The union is taken in order of first appearance; when all the tables have the same
  columns, that is the columns of each.
\<close>

fun unique_in_order :: "'a list \<Rightarrow> 'a list" where
  "unique_in_order [] = []"
| "unique_in_order (x # xs) = x # unique_in_order (filter (\<lambda>y. y \<noteq> x) xs)"

definition reindex :: "string list \<Rightarrow> 'f dataframe \<Rightarrow> 'f cell list list" where
  "reindex new_columns df =
     map (\<lambda>row. map (\<lambda>c. case row_value (columns df) row c of
                            Some v \<Rightarrow> v
                          | None \<Rightarrow> NaN) new_columns)
         (rows df)"

definition concat_frames :: "'f dataframe list \<Rightarrow> 'f dataframe" where
  "concat_frames objs =
     (let new_columns = unique_in_order (concat (map columns objs))
      in \<lparr>columns = new_columns, rows = concat (map (reindex new_columns) objs)\<rparr>)"

definition pd_concat :: "'f dataframe list \<Rightarrow> error + 'f dataframe" where
  "pd_concat objs =
     (if objs = [] then Inl (ValueError ''No objects to concatenate'')
      else Inr (concat_frames objs))"

subsection \<open>The imported packages\<close>

text \<open>
  \<^verbatim>\<open>
  sample_options = {'tune': 1_000, 'draws': 2_000,
                    'chains': 4, 'cores': 4,
                    'nuts_kwargs': {'target_accept': 0.95}}
  \<close>
  The literal \<^verbatim>\<open>0.95\<close> is kept as its digits and decimal exponent.
\<close>

record sample_options_t =
  tune :: nat
  draws :: nat
  chains :: nat
  cores :: nat
  target_accept :: "nat \<times> int"

definition sample_options :: sample_options_t where
  "sample_options = \<lparr>tune = 1000, draws = 2000, chains = 4, cores = 4,
                      target_accept = (95, - 2)\<rparr>"

text \<open>
  The notebook imports \<^verbatim>\<open>models\<close>, \<^verbatim>\<open>pandas\<close>, \<^verbatim>\<open>numpy\<close> and \<^verbatim>\<open>pymc3\<close>. What it calls
  of them is a parameter of the development: \<open>'d\<close> is a loaded data file, \<open>'m\<close> a
  model object, \<open>'c\<close> a model-comparison table and \<open>'f\<close> a float. A call that can
  raise returns a sum. The four constructors are the classes of the module
  \<^verbatim>\<open>models\<close>; \<open>fit\<close> returns the object as \<^verbatim>\<open>.fit(sample_options)\<close> leaves it;
  \<open>log_loss\<close>, \<open>AUC\<close>, \<open>WAIC\<close> and \<open>roc_auc\<close> read the entries of \<^verbatim>\<open>.metrics\<close>;
  \<open>mean_parameters\<close> returns the dictionary of the mean parameter estimates, one
  value per parameter name; \<open>savefig_date\<close> is the creation date that \<^verbatim>\<open>plt.savefig\<close>
  stamps into the file it writes at a path.

  A value of the record is what the packages do during one run. Within a run a call
  is a function of its arguments. Two runs need not meet the same value: the sampler
  goes on from the state in which the random generator was left, and \<^verbatim>\<open>plt.savefig\<close>
  reads the clock. Drawing (\<^verbatim>\<open>plot_data\<close>, \<^verbatim>\<open>.plot\<close>, \<^verbatim>\<open>pm.compareplot\<close>), \<^verbatim>\<open>display\<close>,
  \<^verbatim>\<open>plt.savefig\<close> and \<^verbatim>\<open>to_csv\<close> are taken not to raise, and what \<^verbatim>\<open>display\<close> shows is
  not recorded.
\<close>

record ('f, 'd, 'm, 'c) library =
  read_csv :: "string \<Rightarrow> error + 'd"
  Exponential :: "'d \<Rightarrow> error + 'm"
  Hyperbolic :: "'d \<Rightarrow> error + 'm"
  ModifiedRachlin :: "'d \<Rightarrow> error + 'm"
  Hyperboloid :: "'d \<Rightarrow> error + 'm"
  fit :: "'m \<Rightarrow> sample_options_t \<Rightarrow> error + 'm"
  log_loss :: "'m \<Rightarrow> 'f list"
  AUC :: "'m \<Rightarrow> 'f"
  WAIC :: "'m \<Rightarrow> 'f"
  roc_auc :: "'m \<Rightarrow> 'f"
  mean_parameters :: "'m \<Rightarrow> (string \<times> 'f) list"
  np_median :: "'f list \<Rightarrow> 'f"
  pm_compare :: "'m list \<Rightarrow> error + 'c"
  savefig_date :: "string \<Rightarrow> string"

text \<open>
  \<^verbatim>\<open>
  model_list = {'Exponential': models.Exponential,
                'Hyperbolic': models.Hyperbolic,
                'ModifiedRachlin': models.ModifiedRachlin,
                'Hyperboloid': models.Hyperboloid}
  \<close>
  \<^verbatim>\<open>model_list.items()\<close> lists the entries in this order.
\<close>

definition model_list :: "('f, 'd, 'm, 'c) library \<Rightarrow> (string \<times> ('d \<Rightarrow> error + 'm)) list" where
  "model_list lib =
     [(''Exponential'', Exponential lib),
      (''Hyperbolic'', Hyperbolic lib),
      (''ModifiedRachlin'', ModifiedRachlin lib),
      (''Hyperboloid'', Hyperboloid lib)]"

subsection \<open>What a run changes\<close>

text \<open>
  A figure is what the notebook draws on its two axes: the data points and one curve
  per model on the left, the comparison plot on the right.
\<close>

record ('d, 'm, 'c) figure =
  data_points :: "'d option"
  curves :: "(string \<times> 'm) list"
  legend :: bool
  title :: string
  xlabel :: string
  ylabel :: string
  compareplot :: "'c option"

definition plt_subplots :: "('d, 'm, 'c) figure" where
  "plt_subplots = \<lparr>data_points = None, curves = [], legend = False, title = [],
                    xlabel = [], ylabel = [], compareplot = None\<rparr>"

text \<open>
  A file that \<^verbatim>\<open>plt.savefig\<close> writes holds the figure and the date of its creation; a
  file that \<^verbatim>\<open>to_csv\<close> writes holds the table.
\<close>

record ('d, 'm, 'c) pdf_file =
  drawing :: "('d, 'm, 'c) figure"
  creation_date :: string

datatype ('f, 'd, 'm, 'c) content = Csv "'f dataframe" | Pdf "('d, 'm, 'c) pdf_file"

text \<open>
  An element of \<^verbatim>\<open>fit_data\<close> is a list of one-row tables while the files are
  processed; the export loop replaces it by their concatenation.
\<close>

datatype 'f slot = Rows "'f dataframe list" | Table "'f dataframe"

text \<open>
  The state of a run: the variable \<^verbatim>\<open>fit_data\<close>, and the files written so far, oldest
  first. \<^verbatim>\<open>plt.savefig\<close> and \<^verbatim>\<open>to_csv\<close> open their file for writing, so a write
  replaces what the path held.
\<close>

record ('f, 'd, 'm, 'c) state =
  fit_data :: "'f slot list"
  written :: "(string \<times> ('f, 'd, 'm, 'c) content) list"

text \<open>A block of statements either runs to its end or raises; the state is kept in both cases.\<close>

datatype ('a, 's) outcome = Completed 'a 's | Raised error 's

fun final_state :: "('a, 's) outcome \<Rightarrow> 's" where
  "final_state (Completed x s) = s"
| "final_state (Raised err s) = s"

subsection \<open>The loop over the models\<close>

text \<open>
  \<^verbatim>\<open>
  info = {'id': [initials],
          'commodity': [commodity],
          'condition': [condition],
          'model': [model_name],
          'log_loss': [np.median(models[m].metrics['log_loss'])],
          'AUC': [models[m].metrics['AUC']],
          'WAIC': [models[m].metrics['WAIC']],
          'roc_auc': [models[m].metrics['roc_auc']]}
  params = models[m].mean_parameters()
  info.update(params)
  row = pd.DataFrame.from_dict(info)
  \<close>
\<close>

definition fit_row ::
  "('f, 'd, 'm, 'c) library \<Rightarrow> string \<Rightarrow> string \<Rightarrow> string \<Rightarrow> string \<Rightarrow> 'm \<Rightarrow> 'f dataframe" where
  "fit_row lib initials commodity condition model_name fitted =
     (let info = [(''id'', Str initials),
                  (''commodity'', Str commodity),
                  (''condition'', Str condition),
                  (''model'', Str model_name),
                  (''log_loss'', Num (np_median lib (log_loss lib fitted))),
                  (''AUC'', Num (AUC lib fitted)),
                  (''WAIC'', Num (WAIC lib fitted)),
                  (''roc_auc'', Num (roc_auc lib fitted))];
          params = mean_parameters lib fitted;
          info = dict_update info (map (\<lambda>(k, v). (k, Num v)) params)
      in from_dict info)"

text \<open>
  \<^verbatim>\<open>fit_data[m].append(row)\<close>: a list grows by one element at its end. (Were the element
  a table, \<^verbatim>\<open>DataFrame.append\<close> would return a new table and leave it as it is.)
\<close>

fun append_row :: "'f slot \<Rightarrow> 'f dataframe \<Rightarrow> 'f slot" where
  "append_row (Rows rs) row = Rows (rs @ [row])"
| "append_row (Table t) row = Table t"

text \<open>
  One pass of the inner loop, for the entry \<^verbatim>\<open>m, (model_name, model_build_func)\<close>:
  \<^verbatim>\<open>
  models[m] = model_build_func(data)
  models[m].fit(sample_options)
  models[m].plot(ax[0], label=model_name)
  ...
  fit_data[m].append(row)
  \<close>
\<close>

fun model_body ::
  "('f, 'd, 'm, 'c) library \<Rightarrow> 'd \<Rightarrow> string \<times> string \<times> string
   \<Rightarrow> nat \<times> string \<times> ('d \<Rightarrow> error + 'm)
   \<Rightarrow> 'm option list \<times> ('d, 'm, 'c) figure \<Rightarrow> ('f, 'd, 'm, 'c) state
   \<Rightarrow> ('m option list \<times> ('d, 'm, 'c) figure, ('f, 'd, 'm, 'c) state) outcome" where
  "model_body lib data (initials, commodity, condition) (m, model_name, model_build_func)
     (models, fig) s =
     (case model_build_func data of
        Inl err \<Rightarrow> Raised err s
      | Inr built \<Rightarrow>
          if \<not> m < length models then Raised IndexError s
          else
            (case fit lib built sample_options of
               Inl err \<Rightarrow> Raised err s
             | Inr fitted \<Rightarrow>
                 if \<not> m < length (fit_data s) then Raised IndexError s
                 else
                   Completed
                     (models[m := Some fitted],
                      fig\<lparr>curves := curves fig @ [(model_name, fitted)]\<rparr>)
                     (s\<lparr>fit_data :=
                          (fit_data s)[m := append_row (fit_data s ! m)
                             (fit_row lib initials commodity condition model_name fitted)]\<rparr>)))"

fun for_models ::
  "('f, 'd, 'm, 'c) library \<Rightarrow> 'd \<Rightarrow> string \<times> string \<times> string
   \<Rightarrow> (nat \<times> string \<times> ('d \<Rightarrow> error + 'm)) list
   \<Rightarrow> 'm option list \<times> ('d, 'm, 'c) figure \<Rightarrow> ('f, 'd, 'm, 'c) state
   \<Rightarrow> ('m option list \<times> ('d, 'm, 'c) figure, ('f, 'd, 'm, 'c) state) outcome" where
  "for_models lib data ids [] locals s = Completed locals s"
| "for_models lib data ids (entry # entries) locals s =
     (case model_body lib data ids entry locals s of
        Raised err s' \<Rightarrow> Raised err s'
      | Completed locals' s' \<Rightarrow> for_models lib data ids entries locals' s')"

subsection \<open>The loop over the files\<close>

text \<open>\<^verbatim>\<open>models[i].model\<close> and \<^verbatim>\<open>models[i].trace\<close>: the element must exist and must not be \<^verbatim>\<open>None\<close>.\<close>

definition model_at :: "'m option list \<Rightarrow> nat \<Rightarrow> error + 'm" where
  "model_at models i =
     (if \<not> i < length models then Inl IndexError
      else case models ! i of None \<Rightarrow> Inl AttributeError | Some x \<Rightarrow> Inr x)"

fun models_at :: "'m option list \<Rightarrow> nat list \<Rightarrow> error + 'm list" where
  "models_at models [] = Inr []"
| "models_at models (i # is) =
     (case model_at models i of
        Inl err \<Rightarrow> Inl err
      | Inr x \<Rightarrow> (case models_at models is of Inl err \<Rightarrow> Inl err | Inr xs \<Rightarrow> Inr (x # xs)))"

definition figure_title :: "string \<Rightarrow> string \<Rightarrow> string \<Rightarrow> string" where
  "figure_title initials commodity condition = initials @ '', '' @ commodity @ '', '' @ condition"

definition savename :: "string \<Rightarrow> string \<Rightarrow> string \<Rightarrow> string" where
  "savename initials commodity condition =
     ''fits/'' @ initials @ ''_'' @ commodity @ ''_'' @ condition @ ''.pdf''"

text \<open>
  The body of the outer loop for one file: parse the name, load the data, fit the
  models, compare them, save the figure. The loop is
  \<^verbatim>\<open>for i, fname in enumerate(files)\<close>, and \<^verbatim>\<open>i\<close> is not used. The comparison is
  \<^verbatim>\<open>pm.compare({models[0].model: models[0].trace, ..., models[3].model: models[3].trace})\<close>.
\<close>

definition file_body ::
  "('f, 'd, 'm, 'c) library \<Rightarrow> string \<Rightarrow> ('f, 'd, 'm, 'c) state
   \<Rightarrow> (unit, ('f, 'd, 'm, 'c) state) outcome" where
  "file_body lib fname s =
     (let fig = plt_subplots
      in case parse_filename fname of
           Inl err \<Rightarrow> Raised err s
         | Inr (initials, commodity, condition) \<Rightarrow>
             (case read_csv lib fname of
                Inl err \<Rightarrow> Raised err s
              | Inr data \<Rightarrow>
                  (let fig = fig\<lparr>data_points := Some data\<rparr>;
                       models = [None, None, None, None]
                   in case for_models lib data (initials, commodity, condition)
                             (enumerate 0 (model_list lib)) (models, fig) s of
                        Raised err s' \<Rightarrow> Raised err s'
                      | Completed (models, fig) s' \<Rightarrow>
                          (let fig = fig\<lparr>legend := True,
                                         title := figure_title initials commodity condition,
                                         xlabel := ''delay [days]'',
                                         ylabel := ''discount fraction''\<rparr>
                           in case models_at models [0, 1, 2, 3] of
                                Inl err \<Rightarrow> Raised err s'
                              | Inr fitted \<Rightarrow>
                                  (case pm_compare lib fitted of
                                     Inl err \<Rightarrow> Raised err s'
                                   | Inr df_comp_WAIC \<Rightarrow>
                                       (let fig = fig\<lparr>compareplot := Some df_comp_WAIC\<rparr>
                                        in Completed ()
                                             (s'\<lparr>written := written s' @
                                                  [(savename initials commodity condition,
                                                    Pdf \<lparr>drawing = fig,
                                                         creation_date =
                                                           savefig_date lib
                                                             (savename initials commodity
                                                                condition)\<rparr>)]\<rparr>)))))))"

fun for_files ::
  "('f, 'd, 'm, 'c) library \<Rightarrow> string list \<Rightarrow> ('f, 'd, 'm, 'c) state
   \<Rightarrow> (unit, ('f, 'd, 'm, 'c) state) outcome" where
  "for_files lib [] s = Completed () s"
| "for_files lib (fname # files) s =
     (case file_body lib fname s of
        Raised err s' \<Rightarrow> Raised err s'
      | Completed u s' \<Rightarrow> for_files lib files s')"

subsection \<open>The export loop and the whole cell\<close>

definition csv_name :: "string \<Rightarrow> string" where
  "csv_name model_name = ''parameter_estimation_'' @ model_name @ ''.csv''"

text \<open>\<^verbatim>\<open>pd.concat\<close> of an element of \<^verbatim>\<open>fit_data\<close>; it refuses a single table.\<close>

fun concat_slot :: "'f slot \<Rightarrow> error + 'f dataframe" where
  "concat_slot (Rows rs) = pd_concat rs"
| "concat_slot (Table t) = Inl TypeError"

text \<open>
  \<^verbatim>\<open>
  for m, (model_name, _) in enumerate(model_list.items()):
      fit_data[m] = pd.concat(fit_data[m], ignore_index=True)
      fit_data[m].to_csv(f'parameter_estimation_{model_name}.csv', index=False)
  \<close>
\<close>

fun export ::
  "(nat \<times> string \<times> ('d \<Rightarrow> error + 'm)) list \<Rightarrow> ('f, 'd, 'm, 'c) state
   \<Rightarrow> (unit, ('f, 'd, 'm, 'c) state) outcome" where
  "export [] s = Completed () s"
| "export ((m, model_name, model_build_func) # entries) s =
     (if \<not> m < length (fit_data s) then Raised IndexError s
      else
        (case concat_slot (fit_data s ! m) of
           Inl err \<Rightarrow> Raised err s
         | Inr df \<Rightarrow>
             export entries
               (s\<lparr>fit_data := (fit_data s)[m := Table df],
                  written := written s @ [(csv_name model_name, Csv df)]\<rparr>)))"

text \<open>
  The cell as a whole starts from \<^verbatim>\<open>fit_data = [[], [], [], []]\<close> and has written
  nothing yet.
\<close>

definition initial_state :: "('f, 'd, 'm, 'c) state" where
  "initial_state = \<lparr>fit_data = [Rows [], Rows [], Rows [], Rows []], written = []\<rparr>"

definition run_batch ::
  "('f, 'd, 'm, 'c) library \<Rightarrow> string list \<Rightarrow> (unit, ('f, 'd, 'm, 'c) state) outcome" where
  "run_batch lib files =
     (case for_files lib files initial_state of
        Raised err s \<Rightarrow> Raised err s
      | Completed u s \<Rightarrow> export (enumerate 0 (model_list lib)) s)"



text \<open>The tables among the files that a run has written, oldest first.\<close>

fun csv_writes :: "(string \<times> ('f, 'd, 'm, 'c) content) list \<Rightarrow> (string \<times> 'f dataframe) list" where
  "csv_writes [] = []"
| "csv_writes ((path, Csv df) # ws) = (path, df) # csv_writes ws"
| "csv_writes ((path, Pdf fig) # ws) = csv_writes ws"

text \<open>The path of the figure of a data file, which the fields of its name give.\<close>

definition figure_path :: "string \<Rightarrow> string" where
  "figure_path fname =
     (case parse_filename fname of
        Inl err \<Rightarrow> []
      | Inr (initials, commodity, condition) \<Rightarrow> savename initials commodity condition)"

subsection \<open>Files that are processed without an exception\<close>

text \<open>
  The calls on a file that can raise are the parsing of its name, the loading of its
  data, the construction and the fit of each model, and the comparison of the fitted
  models. \<open>file_ok\<close> says that none of them does.
\<close>

fun fit_all ::
  "('f, 'd, 'm, 'c) library \<Rightarrow> 'd \<Rightarrow> (string \<times> ('d \<Rightarrow> error + 'm)) list \<Rightarrow> error + 'm list" where
  "fit_all lib data [] = Inr []"
| "fit_all lib data ((model_name, model_build_func) # entries) =
     (case model_build_func data of
        Inl err \<Rightarrow> Inl err
      | Inr built \<Rightarrow>
          (case fit lib built sample_options of
             Inl err \<Rightarrow> Inl err
           | Inr fitted \<Rightarrow>
               (case fit_all lib data entries of
                  Inl err \<Rightarrow> Inl err
                | Inr rest \<Rightarrow> Inr (fitted # rest))))"

definition file_ok :: "('f, 'd, 'm, 'c) library \<Rightarrow> string \<Rightarrow> bool" where
  "file_ok lib fname =
     (case parse_filename fname of
        Inl err \<Rightarrow> False
      | Inr ids \<Rightarrow>
          (case read_csv lib fname of
             Inl err \<Rightarrow> False
           | Inr data \<Rightarrow>
               (case fit_all lib data (model_list lib) of
                  Inl err \<Rightarrow> False
                | Inr fitted \<Rightarrow>
                    (case pm_compare lib fitted of Inl err \<Rightarrow> False | Inr table \<Rightarrow> True))))"

subsection \<open>A small library for concrete runs\<close>

text \<open>
  A stand-in for the imported packages, to run the notebook on concrete file names:
  a data file is the length of its name, a model object is the name of its class with
  the data, floats are integers, and a file whose name starts with \<open>x\<close> cannot be read.
\<close>

definition demo_parameters :: "string \<times> nat \<Rightarrow> (string \<times> int) list" where
  "demo_parameters mdl =
     (if fst mdl = ''Exponential'' then [(''k'', 1)]
      else if fst mdl = ''Hyperbolic'' then [(''logk'', - 4)]
      else [(''logk'', - 4), (''s'', 1)])"

definition demo_lib :: "(int, nat, string \<times> nat, string list) library" where
  "demo_lib =
     \<lparr>read_csv = (\<lambda>fname. if take 1 fname = ''x'' then Inl (LibraryError ''FileNotFoundError'')
                           else Inr (length fname)),
      Exponential = (\<lambda>d. Inr (''Exponential'', d)),
      Hyperbolic = (\<lambda>d. Inr (''Hyperbolic'', d)),
      ModifiedRachlin = (\<lambda>d. Inr (''ModifiedRachlin'', d)),
      Hyperboloid = (\<lambda>d. Inr (''Hyperboloid'', d)),
      fit = (\<lambda>mdl opts. Inr mdl),
      log_loss = (\<lambda>mdl. [int (snd mdl), 2, 7]),
      AUC = (\<lambda>mdl. int (snd mdl)),
      WAIC = (\<lambda>mdl. int (length (fst mdl))),
      roc_auc = (\<lambda>mdl. 1),
      mean_parameters = demo_parameters,
      np_median = (\<lambda>xs. sort xs ! (length xs div 2)),
      pm_compare = (\<lambda>mdls. Inr (map fst mdls)),
      savefig_date = (\<lambda>path. ''D:20190301120000'')\<rparr>"


text \<open>Two data files for concrete runs.\<close>

definition demo_files :: "string list" where
  "demo_files = [''../data/discounting/AB-food-hungry-20170101-1200.txt'',
                 ''../data/discounting/JS-money-fed-20170322-0915.txt'']"

text \<open>The parameters that the models of the small library report.\<close>

definition demo_parameter_columns :: "string \<Rightarrow> string list" where
  "demo_parameter_columns model_name =
     (if model_name = ''Exponential'' then [''k'']
      else if model_name = ''Hyperbolic'' then [''logk'']
      else [''logk'', ''s''])"

subsection \<open>The row of a file\<close>

text \<open>
  \<open>row_of_file lib model_name fname df\<close>: the table \<open>df\<close> is the row that the notebook
  makes for the file \<open>fname\<close> and the model \<open>model_name\<close>, from the fields of the
  file's name and a fit of that model to the file's data.
\<close>

definition row_of_file ::
  "('f, 'd, 'm, 'c) library \<Rightarrow> string \<Rightarrow> string \<Rightarrow> 'f dataframe \<Rightarrow> bool" where
  "row_of_file lib model_name fname df =
     (\<exists>initials commodity condition data model_build_func built fitted.
        parse_filename fname = Inr (initials, commodity, condition)
        \<and> read_csv lib fname = Inr data
        \<and> (model_name, model_build_func) \<in> set (model_list lib)
        \<and> model_build_func data = Inr built
        \<and> fit lib built sample_options = Inr fitted
        \<and> df = fit_row lib initials commodity condition model_name fitted)"

subsection \<open>The shape of \<^verbatim>\<open>fit_data\<close> during the loop over the files\<close>

text \<open>
  While the files are processed, \<^verbatim>\<open>fit_data\<close> holds four lists of tables, one per
  entry of \<^verbatim>\<open>model_list\<close>; \<open>slots Q s\<close> says so, and that every table in the list of
  a model satisfies \<open>Q\<close> for the name of that model.
\<close>

fun slots_of :: "(string \<Rightarrow> 'f dataframe \<Rightarrow> bool) \<Rightarrow> 'f slot list \<Rightarrow> bool" where
  "slots_of Q [Rows r0, Rows r1, Rows r2, Rows r3] =
     (list_all (Q ''Exponential'') r0 \<and> list_all (Q ''Hyperbolic'') r1
      \<and> list_all (Q ''ModifiedRachlin'') r2 \<and> list_all (Q ''Hyperboloid'') r3)"
| "slots_of Q other = False"

definition slots :: "(string \<Rightarrow> 'f dataframe \<Rightarrow> bool) \<Rightarrow> ('f, 'd, 'm, 'c) state \<Rightarrow> bool" where
  "slots Q s = slots_of Q (fit_data s)"

section \<open>Properties\<close>

subsection \<open>The filename parser\<close>

lemma str_split_no_sep: "sep \<notin> set a \<Longrightarrow> str_split sep a = [a]"
  by (induction a) auto

lemma str_split_field:
  "sep \<notin> set a \<Longrightarrow> str_split sep (a @ sep # rest) = a # str_split sep rest"
  by (induction a) auto

lemma length_str_split: "length (str_split sep s) = Suc (length (filter (\<lambda>x. x = sep) s))"
  by (induction s) (auto split: list.splits)

subsection \<open>The loops\<close>

lemma enumerate_model_list:
  "enumerate 0 (model_list lib) =
     [(0, ''Exponential'', Exponential lib), (1, ''Hyperbolic'', Hyperbolic lib),
      (2, ''ModifiedRachlin'', ModifiedRachlin lib), (3, ''Hyperboloid'', Hyperboloid lib)]"
  by (simp add: model_list_def eval_nat_numeral)

lemma model_body_Raised:
  "model_body lib data ids entry locals s = Raised err s' \<Longrightarrow> s' = s"
  by (cases ids; cases entry; cases locals) (auto split: sum.splits if_splits)

lemma model_body_Completed:
  assumes "model_body lib data (initials, commodity, condition) (m, model_name, build) (models, fig) s
             = Completed locals' s'"
  shows "\<exists>built fitted. build data = Inr built \<and> fit lib built sample_options = Inr fitted
           \<and> m < length models \<and> m < length (fit_data s)
           \<and> locals' = (models[m := Some fitted], fig\<lparr>curves := curves fig @ [(model_name, fitted)]\<rparr>)
           \<and> s' = s\<lparr>fit_data := (fit_data s)[m := append_row (fit_data s ! m)
                       (fit_row lib initials commodity condition model_name fitted)]\<rparr>"
  using assms by (auto split: sum.splits if_splits)

text \<open>
  A property of the state that every pass of the inner loop keeps holds when the loop
  ends, whether it ran through or raised.
\<close>

lemma for_models_invariant:
  assumes "P s"
    and "\<And>entry locals s. entry \<in> set entries \<Longrightarrow> P s
           \<Longrightarrow> P (final_state (model_body lib data ids entry locals s))"
  shows "P (final_state (for_models lib data ids entries locals s))"
  using assms
proof (induction entries arbitrary: locals s)
  case Nil
  then show ?case by simp
next
  case (Cons entry entries)
  have step: "P (final_state (model_body lib data ids entry locals s))"
    using Cons.prems by simp
  show ?case
  proof (cases "model_body lib data ids entry locals s")
    case (Raised err s')
    with step show ?thesis by simp
  next
    case (Completed locals' s')
    with step have "P s'" by simp
    then have "P (final_state (for_models lib data ids entries locals' s'))"
      using Cons.prems(2) by (intro Cons.IH) auto
    with Completed show ?thesis by simp
  qed
qed

text \<open>The shapes a pass of the outer loop can take.\<close>

lemma file_body_cases:
  obtains (halt_before) err where "file_body lib fname s = Raised err s"
  | (halt_in_models) initials commodity condition data locals err where
      "parse_filename fname = Inr (initials, commodity, condition)"
      "read_csv lib fname = Inr data"
      "file_body lib fname s =
         Raised err (final_state (for_models lib data (initials, commodity, condition)
            (enumerate 0 (model_list lib)) locals s))"
  | (saved) initials commodity condition data locals fig where
      "parse_filename fname = Inr (initials, commodity, condition)"
      "read_csv lib fname = Inr data"
      "file_body lib fname s =
         Completed ()
           ((final_state (for_models lib data (initials, commodity, condition)
               (enumerate 0 (model_list lib)) locals s))
            \<lparr>written := written (final_state (for_models lib data (initials, commodity, condition)
               (enumerate 0 (model_list lib)) locals s))
               @ [(savename initials commodity condition, Pdf fig)]\<rparr>)"
proof (cases "parse_filename fname")
  case (Inl err)
  then have "file_body lib fname s = Raised err s"
    by (simp add: file_body_def)
  then show ?thesis by (rule halt_before)
next
  case (Inr ids)
  obtain initials commodity condition where ids: "ids = (initials, commodity, condition)"
    by (cases ids) auto
  note p = Inr[unfolded ids]
  show ?thesis
  proof (cases "read_csv lib fname")
    case (Inl err)
    with p have "file_body lib fname s = Raised err s"
      by (simp add: file_body_def)
    then show ?thesis by (rule halt_before)
  next
    case (Inr data)
    note r = this
    let ?locals = "([None, None, None, None], plt_subplots\<lparr>data_points := Some data\<rparr>)"
    let ?loop = "for_models lib data (initials, commodity, condition)
                   (enumerate 0 (model_list lib)) ?locals s"
    show ?thesis
    proof (cases ?loop)
      case (Raised err s')
      with p r have "file_body lib fname s = Raised err (final_state ?loop)"
        by (simp add: file_body_def del: for_models.simps)
      with p r show ?thesis by (rule halt_in_models)
    next
      case (Completed locals' s')
      obtain models fig where l: "locals' = (models, fig)" by (cases locals') auto
      note c = Completed[unfolded l]
      show ?thesis
      proof (cases "models_at models [0, 1, 2, 3]")
        case (Inl err)
        with p r c have "file_body lib fname s = Raised err (final_state ?loop)"
          by (simp add: file_body_def del: for_models.simps models_at.simps)
        with p r show ?thesis by (rule halt_in_models)
      next
        case (Inr fitted)
        note f = this
        show ?thesis
        proof (cases "pm_compare lib fitted")
          case (Inl err)
          with p r c f have "file_body lib fname s = Raised err (final_state ?loop)"
            by (simp add: file_body_def del: for_models.simps models_at.simps)
          with p r show ?thesis by (rule halt_in_models)
        next
          case (Inr table)
          with p r c f have "\<exists>fig'. file_body lib fname s =
             Completed () ((final_state ?loop)\<lparr>written := written (final_state ?loop)
               @ [(savename initials commodity condition, Pdf fig')]\<rparr>)"
            by (simp add: file_body_def del: for_models.simps models_at.simps) blast
          then obtain fig' where "file_body lib fname s =
             Completed () ((final_state ?loop)\<lparr>written := written (final_state ?loop)
               @ [(savename initials commodity condition, Pdf fig')]\<rparr>)" ..
          with p r show ?thesis by (rule saved)
        qed
      qed
    qed
  qed
qed



lemma file_body_invariant:
  assumes "P s"
    and "\<And>entry data ids locals s. entry \<in> set (enumerate 0 (model_list lib)) \<Longrightarrow> P s
           \<Longrightarrow> P (final_state (model_body lib data ids entry locals s))"
    and "\<And>s path fig. P s \<Longrightarrow> P (s\<lparr>written := written s @ [(path, Pdf fig)]\<rparr>)"
  shows "P (final_state (file_body lib fname s))"
proof -
  have loop: "P (final_state (for_models lib data ids (enumerate 0 (model_list lib)) locals s))"
    for data ids locals
    by (rule for_models_invariant[where P = P]) (use assms(1,2) in blast)+
  show ?thesis
  proof (cases rule: file_body_cases[of lib fname s])
    case (halt_before err)
    with assms(1) show ?thesis by simp
  next
    case (halt_in_models initials commodity condition data locals err)
    with loop show ?thesis by simp
  next
    case (saved initials commodity condition data locals fig)
    have "P ((final_state (for_models lib data (initials, commodity, condition)
               (enumerate 0 (model_list lib)) locals s))
            \<lparr>written := written (final_state (for_models lib data (initials, commodity, condition)
               (enumerate 0 (model_list lib)) locals s))
               @ [(savename initials commodity condition, Pdf fig)]\<rparr>)"
      by (rule assms(3)) (rule loop)
    with saved(3) show ?thesis by simp
  qed
qed

lemma for_files_invariant:
  assumes "P s"
    and "\<And>entry data ids locals s. entry \<in> set (enumerate 0 (model_list lib)) \<Longrightarrow> P s
           \<Longrightarrow> P (final_state (model_body lib data ids entry locals s))"
    and "\<And>s path fig. P s \<Longrightarrow> P (s\<lparr>written := written s @ [(path, Pdf fig)]\<rparr>)"
  shows "P (final_state (for_files lib files s))"
  using assms(1)
proof (induction files arbitrary: s)
  case Nil
  then show ?case by simp
next
  case (Cons fname files)
  have step: "P (final_state (file_body lib fname s))"
    by (rule file_body_invariant[where P = P]) (use Cons.prems assms(2,3) in blast)+
  show ?case
  proof (cases "file_body lib fname s")
    case (Raised err s')
    with step show ?thesis by simp
  next
    case (Completed u s')
    with step have "P s'" by simp
    then have "P (final_state (for_files lib files s'))" by (rule Cons.IH)
    with Completed show ?thesis by simp
  qed
qed

lemma unpack5_Inl: "length xs \<noteq> 5 \<Longrightarrow> \<exists>msg. unpack5 xs = Inl (ValueError msg)"
  by (cases xs rule: unpack5.cases) auto

lemma parse_filename_malformed:
  assumes "length (str_split CHR ''-'' (snd (os_path_split fname))) \<noteq> 5"
  shows "\<exists>msg. parse_filename fname = Inl (ValueError msg)"
proof -
  obtain msg where "unpack5 (str_split CHR ''-'' (snd (os_path_split fname))) = Inl (ValueError msg)"
    using unpack5_Inl[OF assms] by blast
  then have "parse_filename fname = Inl (ValueError msg)"
    by (cases "os_path_split fname") (simp add: parse_filename_def)
  then show ?thesis ..
qed

lemma file_body_parse_error:
  "parse_filename fname = Inl err \<Longrightarrow> file_body lib fname s = Raised err s"
  by (simp add: file_body_def)

lemma for_files_append:
  "for_files lib (xs @ ys) s =
     (case for_files lib xs s of
        Raised err s' \<Rightarrow> Raised err s'
      | Completed u s' \<Rightarrow> for_files lib ys s')"
  by (induction xs arbitrary: s) (auto split: outcome.splits)

lemma csv_writes_append: "csv_writes (ws @ vs) = csv_writes ws @ csv_writes vs"
  by (induction ws rule: csv_writes.induct) auto

lemma model_body_written:
  "written (final_state (model_body lib data ids entry locals s)) = written s"
  by (cases ids; cases entry; cases locals) (auto split: sum.splits if_splits)

lemma for_files_csv_writes:
  "csv_writes (written (final_state (for_files lib files s))) = csv_writes (written s)"
  by (rule for_files_invariant[where P = "\<lambda>s'. csv_writes (written s') = csv_writes (written s)"])
     (simp_all add: model_body_written csv_writes_append)


subsection \<open>Rows and concatenation\<close>

lemma map_of_dict_set: "map_of (dict_set d k v) = (map_of d)(k \<mapsto> v)"
  by (induction d k v rule: dict_set.induct) (auto simp: fun_eq_iff)

lemma dict_set_new: "k \<notin> fst ` set d \<Longrightarrow> dict_set d k v = d @ [(k, v)]"
  by (induction d k v rule: dict_set.induct) auto

lemma dict_update_new:
  "distinct (map fst other) \<Longrightarrow> fst ` set other \<inter> fst ` set d = {}
   \<Longrightarrow> dict_update d other = d @ other"
proof (induction d other rule: dict_update.induct)
  case (1 d)
  then show ?case by simp
next
  case (2 d k v other)
  from "2.prems" have new: "k \<notin> fst ` set d" by auto
  have "dict_update (dict_set d k v) other = dict_set d k v @ other"
    using "2.prems" new by (intro "2.IH") (auto simp: dict_set_new)
  with new show ?case by (simp add: dict_set_new)
qed

lemma map_of_dict_update_other:
  "k \<notin> fst ` set other \<Longrightarrow> map_of (dict_update d other) k = map_of d k"
  by (induction d other rule: dict_update.induct) (auto simp: map_of_dict_set)

lemma row_value_from_dict:
  "row_value (columns (from_dict info)) (map snd info) k = map_of info k"
  by (simp add: row_value_def from_dict_def zip_map_fst_snd)

lemma rows_fit_row:
  "\<exists>row. rows (fit_row lib initials commodity condition model_name fitted) = [row]
         \<and> length row = length (columns (fit_row lib initials commodity condition model_name fitted))"
  by (simp add: fit_row_def from_dict_def Let_def)

lemma fit_row_model:
  assumes "''model'' \<notin> fst ` set (mean_parameters lib fitted)"
    and "row \<in> set (rows (fit_row lib initials commodity condition model_name fitted))"
  shows "row_value (columns (fit_row lib initials commodity condition model_name fitted)) row ''model''
           = Some (Str model_name)"
proof -
  let ?params = "map (\<lambda>(k, v). (k, Num v)) (mean_parameters lib fitted)"
  have "''model'' \<notin> fst ` set ?params"
    using assms(1) by (auto simp: image_iff)
  then show ?thesis
    using assms(2)
    by (simp add: fit_row_def Let_def row_value_def from_dict_def zip_map_fst_snd
        map_of_dict_update_other)
qed

lemma fit_row_columns:
  assumes "distinct (map fst (mean_parameters lib fitted))"
    and "set (map fst (mean_parameters lib fitted))
           \<inter> set [''id'', ''commodity'', ''condition'', ''model'', ''log_loss'', ''AUC'',
                  ''WAIC'', ''roc_auc''] = {}"
  shows "columns (fit_row lib initials commodity condition model_name fitted)
           = [''id'', ''commodity'', ''condition'', ''model'', ''log_loss'', ''AUC'',
              ''WAIC'', ''roc_auc''] @ map fst (mean_parameters lib fitted)"
proof -
  let ?params = "map (\<lambda>(k, v). (k, Num v)) (mean_parameters lib fitted)"
  have keys: "map fst ?params = map fst (mean_parameters lib fitted)"
    by (simp add: comp_def case_prod_unfold)
  have d: "distinct (map fst ?params)" using assms(1) by (simp only: keys)
  have "fst ` set ?params = set (map fst (mean_parameters lib fitted))"
    using keys by (metis list.set_map)
  then have i: "fst ` set ?params \<inter> fst ` set [(''id'', Str initials),
                  (''commodity'', Str commodity),
                  (''condition'', Str condition),
                  (''model'', Str model_name),
                  (''log_loss'', Num (np_median lib (log_loss lib fitted))),
                  (''AUC'', Num (AUC lib fitted)),
                  (''WAIC'', Num (WAIC lib fitted)),
                  (''roc_auc'', Num (roc_auc lib fitted))] = {}"
    using assms(2) by simp
  show ?thesis
    unfolding fit_row_def Let_def
    by (simp only: dict_update_new[OF d i] from_dict_def) (auto simp: case_prod_unfold)
qed

lemma set_unique_in_order: "set (unique_in_order xs) = set xs"
  by (induction xs rule: unique_in_order.induct) auto

lemma unique_in_order_absorb:
  "distinct xs \<Longrightarrow> set ys \<subseteq> set xs \<Longrightarrow> unique_in_order (xs @ ys) = xs"
proof (induction xs arbitrary: ys rule: unique_in_order.induct)
  case 1
  then show ?case by simp
next
  case (2 x xs)
  have f: "filter (\<lambda>y. y \<noteq> x) xs = xs" using "2.prems"(1) by (auto intro: filter_True)
  have "unique_in_order (filter (\<lambda>y. y \<noteq> x) xs @ filter (\<lambda>y. y \<noteq> x) ys) = filter (\<lambda>y. y \<noteq> x) xs"
    using "2.prems" f by (intro "2.IH") auto
  then show ?case by (simp add: f)
qed

lemma reindex_keeps_entries:
  assumes "set (columns df) \<subseteq> set new_columns"
    and "i < length (rows df)"
    and "row_value (columns df) (rows df ! i) c = Some v"
  shows "row_value new_columns (reindex new_columns df ! i) c = Some v"
proof -
  have "c \<in> set (columns df)"
    using assms(3) by (auto simp: row_value_def dest!: map_of_SomeD set_zip_leftD)
  then have "c \<in> set new_columns" using assms(1) by auto
  then show ?thesis
    using assms(2,3) by (simp add: reindex_def row_value_def map_of_zip_map)
qed

lemma reindex_same_columns:
  assumes "distinct (columns df)" and "\<forall>row \<in> set (rows df). length row = length (columns df)"
  shows "reindex (columns df) df = rows df"
proof -
  have "map (\<lambda>c. case row_value (columns df) row c of Some v \<Rightarrow> v | None \<Rightarrow> NaN) (columns df) = row"
    if "row \<in> set (rows df)" for row
  proof (rule nth_equalityI)
    show "length (map (\<lambda>c. case row_value (columns df) row c of Some v \<Rightarrow> v | None \<Rightarrow> NaN)
            (columns df)) = length row"
      using assms(2) that by simp
  next
    fix i
    assume "i < length (map (\<lambda>c. case row_value (columns df) row c of Some v \<Rightarrow> v | None \<Rightarrow> NaN)
            (columns df))"
    then have i: "i < length (columns df)" by simp
    have "map_of (zip (columns df) row) (columns df ! i) = Some (row ! i)"
      using assms that i by (intro map_of_zip_nth) auto
    with i show "map (\<lambda>c. case row_value (columns df) row c of Some v \<Rightarrow> v | None \<Rightarrow> NaN)
            (columns df) ! i = row ! i"
      by (simp add: row_value_def)
  qed
  then show ?thesis
    by (simp add: reindex_def map_idI)
qed

lemma length_reindex: "length (reindex new_columns df) = length (rows df)"
  by (simp add: reindex_def)

lemma concat_frames_same_columns:
  assumes "objs \<noteq> []" and "distinct cols"
    and "\<forall>df \<in> set objs. columns df = cols \<and> (\<forall>row \<in> set (rows df). length row = length cols)"
  shows "concat_frames objs = \<lparr>columns = cols, rows = concat (map rows objs)\<rparr>"
proof -
  obtain df rest where objs: "objs = df # rest" using assms(1) by (cases objs) auto
  have "set (concat (map columns rest)) \<subseteq> set cols"
    using assms(3) objs by auto
  moreover have "columns df = cols" using assms(3) objs by simp
  ultimately have u: "unique_in_order (concat (map columns objs)) = cols"
    using assms(2) objs by (simp add: unique_in_order_absorb)
  have m: "map (reindex cols) objs = map rows objs"
    using assms(2,3) by (intro map_cong refl) (metis reindex_same_columns)
  show ?thesis
    unfolding concat_frames_def Let_def u m ..
qed

lemma length_rows_concat_frames:
  "length (rows (concat_frames objs)) = sum_list (map (\<lambda>df. length (rows df)) objs)"
  by (simp add: concat_frames_def Let_def length_concat length_reindex comp_def)

subsection \<open>The four lists of rows\<close>

lemma slots_iff:
  "slots Q s \<longleftrightarrow>
     (\<exists>r0 r1 r2 r3. fit_data s = [Rows r0, Rows r1, Rows r2, Rows r3]
        \<and> list_all (Q ''Exponential'') r0 \<and> list_all (Q ''Hyperbolic'') r1
        \<and> list_all (Q ''ModifiedRachlin'') r2 \<and> list_all (Q ''Hyperboloid'') r3)"
proof
  assume "slots Q s"
  then have "slots_of Q (fit_data s)" by (simp add: slots_def)
  then show "\<exists>r0 r1 r2 r3. fit_data s = [Rows r0, Rows r1, Rows r2, Rows r3]
        \<and> list_all (Q ''Exponential'') r0 \<and> list_all (Q ''Hyperbolic'') r1
        \<and> list_all (Q ''ModifiedRachlin'') r2 \<and> list_all (Q ''Hyperboloid'') r3"
    by (rule slots_of.elims(2)) blast
next
  assume "\<exists>r0 r1 r2 r3. fit_data s = [Rows r0, Rows r1, Rows r2, Rows r3]
        \<and> list_all (Q ''Exponential'') r0 \<and> list_all (Q ''Hyperbolic'') r1
        \<and> list_all (Q ''ModifiedRachlin'') r2 \<and> list_all (Q ''Hyperboloid'') r3"
  then show "slots Q s" by (auto simp: slots_def)
qed

lemma slots_initial_state: "slots Q initial_state"
  by (simp add: slots_iff initial_state_def)

lemma slots_written: "slots Q (s\<lparr>written := w\<rparr>) = slots Q s"
  by (simp add: slots_iff)

lemma slots_model_body:
  assumes "slots Q s" and "entry \<in> set (enumerate 0 (model_list lib))"
    and Q: "\<And>initials commodity condition name build data built fitted.
              (name, build) \<in> set (model_list lib) \<Longrightarrow> build data = Inr built
              \<Longrightarrow> fit lib built sample_options = Inr fitted
              \<Longrightarrow> Q name (fit_row lib initials commodity condition name fitted)"
  shows "slots Q (final_state (model_body lib data ids entry locals s))"
proof (cases "model_body lib data ids entry locals s")
  case (Raised err s')
  then have "s' = s" by (rule model_body_Raised)
  with Raised assms(1) show ?thesis by simp
next
  case (Completed locals' s')
  obtain initials commodity condition where ids: "ids = (initials, commodity, condition)"
    by (cases ids) auto
  obtain m name build where entry: "entry = (m, name, build)" by (cases entry) auto
  obtain models fig where locals: "locals = (models, fig)" by (cases locals) auto
  from model_body_Completed[OF Completed[unfolded ids entry locals]]
  obtain built fitted where b: "build data = Inr built" "fit lib built sample_options = Inr fitted"
    and s': "s' = s\<lparr>fit_data := (fit_data s)[m := append_row (fit_data s ! m)
                       (fit_row lib initials commodity condition name fitted)]\<rparr>"
    by blast
  have mem: "(name, build) \<in> set (model_list lib)"
    using assms(2) entry by (auto simp: in_set_enumerate_eq dest: nth_mem)
  have row: "Q name (fit_row lib initials commodity condition name fitted)"
    using mem b by (rule Q)
  from assms(1) obtain r0 r1 r2 r3 where fd: "fit_data s = [Rows r0, Rows r1, Rows r2, Rows r3]"
    and q: "list_all (Q ''Exponential'') r0" "list_all (Q ''Hyperbolic'') r1"
      "list_all (Q ''ModifiedRachlin'') r2" "list_all (Q ''Hyperboloid'') r3"
    by (auto simp: slots_iff)
  have "(m = 0 \<and> name = ''Exponential'') \<or> (m = 1 \<and> name = ''Hyperbolic'')
        \<or> (m = 2 \<and> name = ''ModifiedRachlin'') \<or> (m = 3 \<and> name = ''Hyperboloid'')"
    using assms(2) entry by (auto simp: enumerate_model_list)
  then have "slots Q s'"
    using fd q row by (auto simp: s' slots_iff)
  with Completed show ?thesis by simp
qed

lemma slots_for_files:
  assumes "slots Q s"
    and Q: "\<And>initials commodity condition name build data built fitted.
              (name, build) \<in> set (model_list lib) \<Longrightarrow> build data = Inr built
              \<Longrightarrow> fit lib built sample_options = Inr fitted
              \<Longrightarrow> Q name (fit_row lib initials commodity condition name fitted)"
  shows "slots Q (final_state (for_files lib files s))"
proof (rule for_files_invariant[where P = "slots Q"])
  show "slots Q s" by (rule assms(1))
next
  fix entry :: "nat \<times> string \<times> ('b \<Rightarrow> error + 'c)" and data ids locals and s :: "('a, 'b, 'c, 'd) state"
  assume a: "entry \<in> set (enumerate 0 (model_list lib))" and b: "slots Q s"
  show "slots Q (final_state (model_body lib data ids entry locals s))"
    using b a by (rule slots_model_body) (rule Q)
next
  fix s :: "('a, 'b, 'c, 'd) state" and path fig
  assume "slots Q s"
  then show "slots Q (s\<lparr>written := written s @ [(path, Pdf fig)]\<rparr>)"
    by (simp add: slots_written)
qed

lemma fit_all_model_list:
  assumes "fit_all lib data (model_list lib) = Inr fitted"
  obtains b0 b1 b2 b3 f0 f1 f2 f3 where
    "Exponential lib data = Inr b0" "fit lib b0 sample_options = Inr f0"
    "Hyperbolic lib data = Inr b1" "fit lib b1 sample_options = Inr f1"
    "ModifiedRachlin lib data = Inr b2" "fit lib b2 sample_options = Inr f2"
    "Hyperboloid lib data = Inr b3" "fit lib b3 sample_options = Inr f3"
    "fitted = [f0, f1, f2, f3]"
  using assms by (auto simp: model_list_def split: sum.splits)

lemma for_models_success:
  assumes "Exponential lib data = Inr b0" "fit lib b0 sample_options = Inr f0"
    "Hyperbolic lib data = Inr b1" "fit lib b1 sample_options = Inr f1"
    "ModifiedRachlin lib data = Inr b2" "fit lib b2 sample_options = Inr f2"
    "Hyperboloid lib data = Inr b3" "fit lib b3 sample_options = Inr f3"
    and "fit_data s = [Rows r0, Rows r1, Rows r2, Rows r3]"
  shows "for_models lib data (initials, commodity, condition) (enumerate 0 (model_list lib))
           ([None, None, None, None], fig) s
         = Completed
             ([Some f0, Some f1, Some f2, Some f3],
              fig\<lparr>curves := curves fig @ [(''Exponential'', f0), (''Hyperbolic'', f1),
                                         (''ModifiedRachlin'', f2), (''Hyperboloid'', f3)]\<rparr>)
             (s\<lparr>fit_data :=
                  [Rows (r0 @ [fit_row lib initials commodity condition ''Exponential'' f0]),
                   Rows (r1 @ [fit_row lib initials commodity condition ''Hyperbolic'' f1]),
                   Rows (r2 @ [fit_row lib initials commodity condition ''ModifiedRachlin'' f2]),
                   Rows (r3 @ [fit_row lib initials commodity condition ''Hyperboloid'' f3])]\<rparr>)"
  by (simp add: enumerate_model_list assms)

lemma export_success:
  assumes "fit_data s = [Rows r0, Rows r1, Rows r2, Rows r3]"
    and "r0 \<noteq> []" "r1 \<noteq> []" "r2 \<noteq> []" "r3 \<noteq> []"
  shows "export (enumerate 0 (model_list lib)) s
         = Completed ()
             (s\<lparr>fit_data := [Table (concat_frames r0), Table (concat_frames r1),
                             Table (concat_frames r2), Table (concat_frames r3)],
                written := written s @
                  [(csv_name ''Exponential'', Csv (concat_frames r0)),
                   (csv_name ''Hyperbolic'', Csv (concat_frames r1)),
                   (csv_name ''ModifiedRachlin'', Csv (concat_frames r2)),
                   (csv_name ''Hyperboloid'', Csv (concat_frames r3))]\<rparr>)"
  by (simp add: enumerate_model_list pd_concat_def assms)

subsection \<open>Runs without an exception, and the export\<close>

lemma models_at_all:
  "models_at [Some f0, Some f1, Some f2, Some f3] [0, 1, 2, 3] = Inr [f0, f1, f2, f3]"
  by (simp add: model_at_def)

lemma file_body_success:
  assumes "file_ok lib fname" and "fit_data s = [Rows r0, Rows r1, Rows r2, Rows r3]"
  shows "\<exists>x0 x1 x2 x3 fig.
           file_body lib fname s
           = Completed ()
               (s\<lparr>fit_data := [Rows (r0 @ [x0]), Rows (r1 @ [x1]),
                               Rows (r2 @ [x2]), Rows (r3 @ [x3])],
                  written := written s @ [(figure_path fname, Pdf fig)]\<rparr>)
           \<and> row_of_file lib ''Exponential'' fname x0
           \<and> row_of_file lib ''Hyperbolic'' fname x1
           \<and> row_of_file lib ''ModifiedRachlin'' fname x2
           \<and> row_of_file lib ''Hyperboloid'' fname x3"
proof -
  from assms(1) obtain ids data fitted table where
    p: "parse_filename fname = Inr ids" and r: "read_csv lib fname = Inr data"
    and f: "fit_all lib data (model_list lib) = Inr fitted"
    and c: "pm_compare lib fitted = Inr table"
    by (auto simp: file_ok_def split: sum.splits)
  obtain initials commodity condition where ids: "ids = (initials, commodity, condition)"
    by (cases ids) auto
  from f obtain b0 b1 b2 b3 f0 f1 f2 f3 where fits:
    "Exponential lib data = Inr b0" "fit lib b0 sample_options = Inr f0"
    "Hyperbolic lib data = Inr b1" "fit lib b1 sample_options = Inr f1"
    "ModifiedRachlin lib data = Inr b2" "fit lib b2 sample_options = Inr f2"
    "Hyperboloid lib data = Inr b3" "fit lib b3 sample_options = Inr f3"
    and fitted: "fitted = [f0, f1, f2, f3]"
    by (rule fit_all_model_list)
  note loop = for_models_success[OF fits assms(2), of initials commodity condition]
  have body: "file_body lib fname s
           = Completed ()
               (s\<lparr>fit_data :=
                    [Rows (r0 @ [fit_row lib initials commodity condition ''Exponential'' f0]),
                     Rows (r1 @ [fit_row lib initials commodity condition ''Hyperbolic'' f1]),
                     Rows (r2 @ [fit_row lib initials commodity condition ''ModifiedRachlin'' f2]),
                     Rows (r3 @ [fit_row lib initials commodity condition ''Hyperboloid'' f3])],
                  written := written s @ [(figure_path fname,
                     Pdf \<lparr>drawing = plt_subplots\<lparr>data_points := Some data,
                            curves := [(''Exponential'', f0), (''Hyperbolic'', f1),
                                         (''ModifiedRachlin'', f2), (''Hyperboloid'', f3)],
                            legend := True,
                            title := figure_title initials commodity condition,
                            xlabel := ''delay [days]'',
                            ylabel := ''discount fraction'',
                            compareplot := Some table\<rparr>,
                          creation_date =
                            savefig_date lib (savename initials commodity condition)\<rparr>)]\<rparr>)"
    unfolding file_body_def Let_def
    by (simp only: p ids r loop models_at_all c[unfolded fitted] sum.case prod.case outcome.case)
       (simp add: plt_subplots_def figure_path_def p ids)
  have mem: "(''Exponential'', Exponential lib) \<in> set (model_list lib)"
    "(''Hyperbolic'', Hyperbolic lib) \<in> set (model_list lib)"
    "(''ModifiedRachlin'', ModifiedRachlin lib) \<in> set (model_list lib)"
    "(''Hyperboloid'', Hyperboloid lib) \<in> set (model_list lib)"
    by (simp_all add: model_list_def)
  have "row_of_file lib ''Exponential'' fname
          (fit_row lib initials commodity condition ''Exponential'' f0)"
    unfolding row_of_file_def using p[unfolded ids] r mem(1) fits(1,2) by blast
  moreover have "row_of_file lib ''Hyperbolic'' fname
          (fit_row lib initials commodity condition ''Hyperbolic'' f1)"
    unfolding row_of_file_def using p[unfolded ids] r mem(2) fits(3,4) by blast
  moreover have "row_of_file lib ''ModifiedRachlin'' fname
          (fit_row lib initials commodity condition ''ModifiedRachlin'' f2)"
    unfolding row_of_file_def using p[unfolded ids] r mem(3) fits(5,6) by blast
  moreover have "row_of_file lib ''Hyperboloid'' fname
          (fit_row lib initials commodity condition ''Hyperboloid'' f3)"
    unfolding row_of_file_def using p[unfolded ids] r mem(4) fits(7,8) by blast
  ultimately show ?thesis using body by blast
qed

lemma for_files_rows:
  assumes "\<forall>fname \<in> set files. file_ok lib fname"
    and "fit_data s = [Rows r0, Rows r1, Rows r2, Rows r3]"
  shows "\<exists>s' q0 q1 q2 q3.
           for_files lib files s = Completed () s'
           \<and> fit_data s' = [Rows (r0 @ q0), Rows (r1 @ q1), Rows (r2 @ q2), Rows (r3 @ q3)]
           \<and> list_all2 (row_of_file lib ''Exponential'') files q0
           \<and> list_all2 (row_of_file lib ''Hyperbolic'') files q1
           \<and> list_all2 (row_of_file lib ''ModifiedRachlin'') files q2
           \<and> list_all2 (row_of_file lib ''Hyperboloid'') files q3"
  using assms
proof (induction files arbitrary: s r0 r1 r2 r3)
  case Nil
  then show ?case by simp
next
  case (Cons fname files)
  from Cons.prems have ok: "file_ok lib fname" by simp
  from file_body_success[OF ok Cons.prems(2)]
  obtain s1 x0 x1 x2 x3 where
    step: "file_body lib fname s = Completed () s1"
    and fd: "fit_data s1 = [Rows (r0 @ [x0]), Rows (r1 @ [x1]), Rows (r2 @ [x2]), Rows (r3 @ [x3])]"
    and x: "row_of_file lib ''Exponential'' fname x0" "row_of_file lib ''Hyperbolic'' fname x1"
      "row_of_file lib ''ModifiedRachlin'' fname x2" "row_of_file lib ''Hyperboloid'' fname x3"
    by fastforce
  from Cons.prems have "\<forall>fname \<in> set files. file_ok lib fname" by simp
  from Cons.IH[OF this fd]
  obtain s' q0 q1 q2 q3 where
    rest: "for_files lib files s1 = Completed () s'"
    and fd': "fit_data s' = [Rows ((r0 @ [x0]) @ q0), Rows ((r1 @ [x1]) @ q1),
                            Rows ((r2 @ [x2]) @ q2), Rows ((r3 @ [x3]) @ q3)]"
    and q: "list_all2 (row_of_file lib ''Exponential'') files q0"
      "list_all2 (row_of_file lib ''Hyperbolic'') files q1"
      "list_all2 (row_of_file lib ''ModifiedRachlin'') files q2"
      "list_all2 (row_of_file lib ''Hyperboloid'') files q3"
    by blast
  have "for_files lib (fname # files) s = Completed () s'"
    using step rest by simp
  moreover have "fit_data s' = [Rows (r0 @ (x0 # q0)), Rows (r1 @ (x1 # q1)),
                            Rows (r2 @ (x2 # q2)), Rows (r3 @ (x3 # q3))]"
    using fd' by simp
  moreover have "list_all2 (row_of_file lib ''Exponential'') (fname # files) (x0 # q0)"
    "list_all2 (row_of_file lib ''Hyperbolic'') (fname # files) (x1 # q1)"
    "list_all2 (row_of_file lib ''ModifiedRachlin'') (fname # files) (x2 # q2)"
    "list_all2 (row_of_file lib ''Hyperboloid'') (fname # files) (x3 # q3)"
    using x q by simp_all
  ultimately show ?case by blast
qed

lemma for_files_success:
  assumes "\<forall>fname \<in> set files. file_ok lib fname"
    and "fit_data s = [Rows r0, Rows r1, Rows r2, Rows r3]"
  shows "\<exists>s' q0 q1 q2 q3.
           for_files lib files s = Completed () s'
           \<and> fit_data s' = [Rows (r0 @ q0), Rows (r1 @ q1), Rows (r2 @ q2), Rows (r3 @ q3)]
           \<and> length q0 = length files \<and> length q1 = length files
           \<and> length q2 = length files \<and> length q3 = length files"
proof -
  from for_files_rows[OF assms]
  obtain s' q0 q1 q2 q3 where
    "for_files lib files s = Completed () s'"
    "fit_data s' = [Rows (r0 @ q0), Rows (r1 @ q1), Rows (r2 @ q2), Rows (r3 @ q3)]"
    "list_all2 (row_of_file lib ''Exponential'') files q0"
    "list_all2 (row_of_file lib ''Hyperbolic'') files q1"
    "list_all2 (row_of_file lib ''ModifiedRachlin'') files q2"
    "list_all2 (row_of_file lib ''Hyperboloid'') files q3"
    by blast
  then show ?thesis
    by (metis list_all2_lengthD)
qed

lemma fit_row_fixed:
  assumes "k \<notin> fst ` set (mean_parameters lib fitted)"
  shows "\<exists>row. rows (fit_row lib initials commodity condition model_name fitted) = [row]
           \<and> row_value (columns (fit_row lib initials commodity condition model_name fitted)) row k
               = map_of [(''id'', Str initials), (''commodity'', Str commodity),
                         (''condition'', Str condition), (''model'', Str model_name),
                         (''log_loss'', Num (np_median lib (log_loss lib fitted))),
                         (''AUC'', Num (AUC lib fitted)), (''WAIC'', Num (WAIC lib fitted)),
                         (''roc_auc'', Num (roc_auc lib fitted))] k"
proof -
  let ?params = "map (\<lambda>(k, v). (k, Num v)) (mean_parameters lib fitted)"
  have "k \<notin> fst ` set ?params"
    using assms by (auto simp: image_iff)
  then show ?thesis
    by (simp add: fit_row_def Let_def row_value_def from_dict_def zip_map_fst_snd
        map_of_dict_update_other del: map_of.simps)
qed

lemma export_csv_writes:
  assumes "(path, df) \<in> set (csv_writes (written (final_state (export entries s))))"
  shows "(path, df) \<in> set (csv_writes (written s))
         \<or> (\<exists>j name build rs. (j, name, build) \<in> set entries \<and> j < length (fit_data s)
               \<and> fit_data s ! j = Rows rs \<and> rs \<noteq> [] \<and> path = csv_name name
               \<and> df = concat_frames rs)"
  using assms
proof (induction entries s rule: export.induct)
  case (1 s)
  then show ?case by simp
next
  case (2 m model_name model_build_func entries s)
  show ?case
  proof (cases "m < length (fit_data s)")
    case False
    with "2.prems" show ?thesis by simp
  next
    case True
    show ?thesis
    proof (cases "concat_slot (fit_data s ! m)")
      case (Inl err)
      with True "2.prems" show ?thesis by simp
    next
      case (Inr t)
      then obtain rs where slot: "fit_data s ! m = Rows rs" and "pd_concat rs = Inr t"
        by (cases "fit_data s ! m") auto
      then have rs: "rs \<noteq> []" and t: "t = concat_frames rs"
        by (auto simp: pd_concat_def split: if_splits)
      let ?s' = "s\<lparr>fit_data := (fit_data s)[m := Table t],
                    written := written s @ [(csv_name model_name, Csv t)]\<rparr>"
      have "(path, df) \<in> set (csv_writes (written (final_state (export entries ?s'))))"
        using "2.prems" True Inr by simp
      from "2.IH"[OF _ Inr this] True
      consider (old) "(path, df) \<in> set (csv_writes (written ?s'))"
        | (later) j name build rs' where "(j, name, build) \<in> set entries" "j < length (fit_data ?s')"
            "fit_data ?s' ! j = Rows rs'" "rs' \<noteq> []" "path = csv_name name" "df = concat_frames rs'"
        by blast
      then show ?thesis
      proof cases
        case old
        then have "(path, df) \<in> set (csv_writes (written s)) \<or> (path, df) = (csv_name model_name, t)"
          by (auto simp: csv_writes_append)
        with True slot rs t show ?thesis by auto
      next
        case later
        from later(2,3) True have "j \<noteq> m" by (auto simp: nth_list_update split: if_splits)
        with later have "j < length (fit_data s)" "fit_data s ! j = Rows rs'" by simp_all
        with later show ?thesis by auto
      qed
    qed
  qed
qed

lemma rows_concat_frames:
  assumes "row \<in> set (rows (concat_frames objs))"
  obtains df i where "df \<in> set objs" "i < length (rows df)"
    "row = reindex (columns (concat_frames objs)) df ! i"
    "set (columns df) \<subseteq> set (columns (concat_frames objs))"
proof -
  from assms obtain df where df: "df \<in> set objs"
    and "row \<in> set (reindex (columns (concat_frames objs)) df)"
    by (auto simp: concat_frames_def Let_def)
  then obtain i where "i < length (rows df)" "row = reindex (columns (concat_frames objs)) df ! i"
    by (metis in_set_conv_nth length_reindex)
  moreover have "set (columns df) \<subseteq> set (columns (concat_frames objs))"
    using df by (auto simp: concat_frames_def Let_def set_unique_in_order)
  ultimately show ?thesis using df that by blast
qed

lemma concat_frames_keeps_value:
  assumes "\<forall>df \<in> set objs. \<forall>r \<in> set (rows df). row_value (columns df) r c = Some v"
    and "row \<in> set (rows (concat_frames objs))"
  shows "row_value (columns (concat_frames objs)) row c = Some v"
proof -
  from assms(2) obtain df i where df: "df \<in> set objs" "i < length (rows df)"
    "row = reindex (columns (concat_frames objs)) df ! i"
    "set (columns df) \<subseteq> set (columns (concat_frames objs))"
    by (rule rows_concat_frames)
  have "row_value (columns df) (rows df ! i) c = Some v"
    using assms(1) df(1,2) by simp
  with df show ?thesis by (simp add: reindex_keeps_entries)
qed

subsection \<open>Rows once appended\<close>

lemma csv_name_inject: "csv_name a = csv_name b \<longleftrightarrow> a = b"
  by (simp add: csv_name_def)



lemma concat_frames_single_rows:
  assumes "\<forall>df \<in> set objs. length (rows df) = 1"
  shows "length (rows (concat_frames objs)) = length objs"
    and "k < length objs \<Longrightarrow>
           rows (concat_frames objs) ! k = reindex (columns (concat_frames objs)) (objs ! k) ! 0"
proof -
  let ?nc = "columns (concat_frames objs)"
  have one: "reindex ?nc df = [reindex ?nc df ! 0]" if "df \<in> set objs" for df
  proof -
    have "length (reindex ?nc df) = 1" using assms that by (simp add: length_reindex)
    then show ?thesis by (cases "reindex ?nc df") auto
  qed
  have "rows (concat_frames objs) = concat (map (reindex ?nc) objs)"
    by (simp add: concat_frames_def Let_def)
  also have "map (reindex ?nc) objs = map (\<lambda>df. [reindex ?nc df ! 0]) objs"
    using one by (intro map_cong refl)
  also have "concat (map (\<lambda>df. [reindex ?nc df ! 0]) objs) = map (\<lambda>df. reindex ?nc df ! 0) objs"
    by (induction objs) auto
  finally have r: "rows (concat_frames objs) = map (\<lambda>df. reindex ?nc df ! 0) objs" .
  show "length (rows (concat_frames objs)) = length objs" by (simp add: r)
  show "rows (concat_frames objs) ! k = reindex ?nc (objs ! k) ! 0" if "k < length objs"
    using that by (simp add: r)
qed

lemma columns_subset_concat_frames:
  "df \<in> set objs \<Longrightarrow> set (columns df) \<subseteq> set (columns (concat_frames objs))"
  by (auto simp: concat_frames_def Let_def set_unique_in_order)

lemma concat_frames_keeps_rows:
  assumes "\<forall>df \<in> set objs. length (rows df) = 1" and "k < length objs"
  shows "\<exists>row. rows (objs ! k) = [row]
           \<and> (\<forall>c v. row_value (columns (objs ! k)) row c = Some v
                  \<longrightarrow> row_value (columns (concat_frames objs)) (rows (concat_frames objs) ! k) c = Some v)"
proof -
  have mem: "objs ! k \<in> set objs" using assms(2) by simp
  then have "length (rows (objs ! k)) = 1" using assms(1) by blast
  then obtain row where row: "rows (objs ! k) = [row]"
    by (cases "rows (objs ! k)") auto
  have "row_value (columns (concat_frames objs)) (rows (concat_frames objs) ! k) c = Some v"
    if "row_value (columns (objs ! k)) row c = Some v" for c v
  proof -
    have "row_value (columns (concat_frames objs))
            (reindex (columns (concat_frames objs)) (objs ! k) ! 0) c = Some v"
      using that row by (intro reindex_keeps_entries columns_subset_concat_frames mem) simp_all
    then show ?thesis
      using concat_frames_single_rows(2)[OF assms] by simp
  qed
  with row show ?thesis by blast
qed



lemma concat_frames_columns:
  assumes "rs \<noteq> []" and "distinct cols"
    and "list_all (\<lambda>df. columns df = cols \<and> (\<forall>row \<in> set (rows df). length row = length (columns df))) rs"
  shows "columns (concat_frames rs) = cols
         \<and> (\<forall>row \<in> set (rows (concat_frames rs)). length row = length (columns (concat_frames rs)))"
proof -
  have "\<forall>df \<in> set rs. columns df = cols \<and> (\<forall>row \<in> set (rows df). length row = length cols)"
    using assms(3) by (auto simp: list_all_iff)
  from concat_frames_same_columns[OF assms(1,2) this] this
  show ?thesis by auto
qed

subsection \<open>The paths that a run writes\<close>




subsection \<open>Claims\<close>

text \<open>
  Claim C1. The name \<^verbatim>\<open>AB-food-hungry-20170101-1200.txt\<close> parses to the initials
  \<^verbatim>\<open>AB\<close>, the commodity \<^verbatim>\<open>food\<close> and the condition \<^verbatim>\<open>hungry\<close>. In general, for every
  path whose last component is five fields joined by hyphens (no field containing a
  hyphen), \<open>parse_filename\<close> returns the first three fields and drops the date and
  the time.
\<close>

theorem parse_filename_five_fields:
  "parse_filename ''AB-food-hungry-20170101-1200.txt'' = Inr (''AB'', ''food'', ''hungry'')
   \<and> (\<forall>fname a b c d e.
        snd (os_path_split fname) = a @ ''-'' @ b @ ''-'' @ c @ ''-'' @ d @ ''-'' @ e
        \<and> CHR ''-'' \<notin> set a \<union> set b \<union> set c \<union> set d \<union> set e
        \<longrightarrow> parse_filename fname = Inr (a, b, c))"
proof (intro conjI allI impI)
  show "parse_filename ''AB-food-hungry-20170101-1200.txt'' = Inr (''AB'', ''food'', ''hungry'')"
    by code_simp
next
  fix fname a b c d e
  assume h: "snd (os_path_split fname) = a @ ''-'' @ b @ ''-'' @ c @ ''-'' @ d @ ''-'' @ e
        \<and> CHR ''-'' \<notin> set a \<union> set b \<union> set c \<union> set d \<union> set e"
  then have "str_split CHR ''-'' (snd (os_path_split fname)) = [a, b, c, d, e]"
    by (simp add: str_split_field str_split_no_sep)
  then show "parse_filename fname = Inr (a, b, c)"
    by (cases "os_path_split fname") (simp add: parse_filename_def)
qed

theorem parse_filename_five_fields_witness:
  "snd (os_path_split ''../data/discounting/JS-money-fed-20170322-0915.txt'')
     = ''JS'' @ ''-'' @ ''money'' @ ''-'' @ ''fed'' @ ''-'' @ ''20170322'' @ ''-'' @ ''0915.txt''
   \<and> CHR ''-'' \<notin> set ''JS'' \<union> set ''money'' \<union> set ''fed'' \<union> set ''20170322'' \<union> set ''0915.txt''
   \<and> parse_filename ''../data/discounting/JS-money-fed-20170322-0915.txt''
       = Inr (''JS'', ''money'', ''fed'')"
proof -
  have h1: "snd (os_path_split ''../data/discounting/JS-money-fed-20170322-0915.txt'')
     = ''JS'' @ ''-'' @ ''money'' @ ''-'' @ ''fed'' @ ''-'' @ ''20170322'' @ ''-'' @ ''0915.txt''"
    by code_simp
  have h2: "CHR ''-'' \<notin> set ''JS'' \<union> set ''money'' \<union> set ''fed'' \<union> set ''20170322'' \<union> set ''0915.txt''"
    by simp
  from parse_filename_five_fields h1 h2 show ?thesis by blast
qed

text \<open>
  Claim C4. A file name whose last path component does not split at the hyphens into
  exactly five fields makes the parser raise \<open>ValueError\<close>. A run over a list that
  contains such a name halts: it ends with an exception in the state that the files
  before the name left behind, whatever files follow, and it writes no table. When the
  files before it were processed to their end, the exception is the parser's.
\<close>

theorem malformed_filename_halts_batch:
  "length (str_split CHR ''-'' (snd (os_path_split bad))) \<noteq> 5 \<longrightarrow>
     (\<exists>msg. parse_filename bad = Inl (ValueError msg)
        \<and> (\<forall>u s. for_files lib before initial_state = Completed u s
               \<longrightarrow> run_batch lib (before @ bad # later) = Raised (ValueError msg) s))
     \<and> (\<exists>err. run_batch lib (before @ bad # later)
                = Raised err (final_state (for_files lib before initial_state)))
     \<and> csv_writes (written (final_state (run_batch lib (before @ bad # later)))) = []"
proof
  assume bad: "length (str_split CHR ''-'' (snd (os_path_split bad))) \<noteq> 5"
  then obtain msg where msg: "parse_filename bad = Inl (ValueError msg)"
    using parse_filename_malformed by blast
  have step: "file_body lib bad s = Raised (ValueError msg) s" for s
    using msg by (rule file_body_parse_error)
  have parser: "run_batch lib (before @ bad # later) = Raised (ValueError msg) s"
    if "for_files lib before initial_state = Completed u s" for u s
    using that by (simp add: run_batch_def for_files_append step)
  have halt: "\<exists>err. for_files lib (before @ bad # later) initial_state
                = Raised err (final_state (for_files lib before initial_state))"
    by (cases "for_files lib before initial_state") (simp_all add: for_files_append step)
  then obtain err where "for_files lib (before @ bad # later) initial_state
                = Raised err (final_state (for_files lib before initial_state))" ..
  then have run: "run_batch lib (before @ bad # later)
                = Raised err (final_state (for_files lib before initial_state))"
    by (simp add: run_batch_def)
  have "csv_writes (written (final_state (for_files lib before initial_state))) = []"
    by (simp add: for_files_csv_writes initial_state_def)
  with msg parser run show "(\<exists>msg. parse_filename bad = Inl (ValueError msg)
        \<and> (\<forall>u s. for_files lib before initial_state = Completed u s
               \<longrightarrow> run_batch lib (before @ bad # later) = Raised (ValueError msg) s))
     \<and> (\<exists>err. run_batch lib (before @ bad # later)
                = Raised err (final_state (for_files lib before initial_state)))
     \<and> csv_writes (written (final_state (run_batch lib (before @ bad # later)))) = []"
    by auto
qed

theorem malformed_filename_halts_batch_witness:
  "length (str_split CHR ''-'' (snd (os_path_split ''../data/discounting/JS-money-fed-20170322.txt''))) \<noteq> 5
   \<and> parse_filename ''../data/discounting/JS-money-fed-20170322.txt''
       = Inl (ValueError ''not enough values to unpack (expected 5, got 4)'')
   \<and> (\<exists>s. for_files demo_lib [''../data/discounting/AB-food-hungry-20170101-1200.txt''] initial_state
              = Completed () s
          \<and> run_batch demo_lib
               [''../data/discounting/AB-food-hungry-20170101-1200.txt'',
                ''../data/discounting/JS-money-fed-20170322.txt'',
                ''../data/discounting/CD-music-fed-20170323-1000.txt'']
              = Raised (ValueError ''not enough values to unpack (expected 5, got 4)'') s)
   \<and> csv_writes (written (final_state (run_batch demo_lib
               [''../data/discounting/AB-food-hungry-20170101-1200.txt'',
                ''../data/discounting/JS-money-fed-20170322.txt'',
                ''../data/discounting/CD-music-fed-20170323-1000.txt'']))) = []"
proof -
  let ?bad = "''../data/discounting/JS-money-fed-20170322.txt''"
  let ?before = "[''../data/discounting/AB-food-hungry-20170101-1200.txt'']"
  let ?later = "[''../data/discounting/CD-music-fed-20170323-1000.txt'']"
  have h: "length (str_split CHR ''-'' (snd (os_path_split ?bad))) \<noteq> 5"
    by code_simp
  have p: "parse_filename ?bad = Inl (ValueError ''not enough values to unpack (expected 5, got 4)'')"
    by code_simp
  have "(case for_files demo_lib ?before initial_state of
           Completed u s \<Rightarrow> True | Raised err s \<Rightarrow> False)"
    by code_simp
  then obtain s where c: "for_files demo_lib ?before initial_state = Completed () s"
    by (cases "for_files demo_lib ?before initial_state") auto
  from malformed_filename_halts_batch[of ?bad demo_lib ?before ?later] h p c
  show ?thesis by auto
qed





text \<open>
  Claim C10. Provided no model reports a parameter called \<^verbatim>\<open>model\<close> (which
  \<^verbatim>\<open>info.update(params)\<close> would write over the model's name), every row of every table
  that a run writes to \<^verbatim>\<open>parameter_estimation_<name>.csv\<close> has that name in its column
  \<^verbatim>\<open>model\<close>: both loops enumerate the same \<^verbatim>\<open>model_list\<close>, so the list that collects
  the rows of a model is the one exported under its name.
\<close>

theorem csv_rows_carry_model_name:
  "(\<forall>fitted. ''model'' \<notin> fst ` set (mean_parameters lib fitted)) \<longrightarrow>
   (\<forall>name df row.
      (csv_name name, df) \<in> set (csv_writes (written (final_state (run_batch lib files))))
      \<and> row \<in> set (rows df)
      \<longrightarrow> row_value (columns df) row ''model'' = Some (Str name))"
proof (intro impI allI)
  fix name df row
  assume params: "\<forall>fitted. ''model'' \<notin> fst ` set (mean_parameters lib fitted)"
  assume "(csv_name name, df) \<in> set (csv_writes (written (final_state (run_batch lib files))))
      \<and> row \<in> set (rows df)"
  then have w: "(csv_name name, df) \<in> set (csv_writes (written (final_state (run_batch lib files))))"
    and row: "row \<in> set (rows df)" by simp_all
  let ?Q = "\<lambda>name df. \<forall>row \<in> set (rows df). row_value (columns df) row ''model'' = Some (Str name)"
  let ?s1 = "final_state (for_files lib files initial_state)"
  have inv: "slots ?Q ?s1"
    by (rule slots_for_files[OF slots_initial_state]) (use params in \<open>simp add: fit_row_model\<close>)
  have none: "csv_writes (written ?s1) = []"
    by (simp add: for_files_csv_writes initial_state_def)
  have "(csv_name name, df) \<in> set (csv_writes (written (final_state
          (export (enumerate 0 (model_list lib)) ?s1))))"
  proof (cases "for_files lib files initial_state")
    case (Raised err s)
    with w none show ?thesis by (simp add: run_batch_def)
  next
    case (Completed u s)
    with w show ?thesis by (simp add: run_batch_def)
  qed
  from export_csv_writes[OF this] none
  obtain j name' build rs where e: "(j, name', build) \<in> set (enumerate 0 (model_list lib))"
    and slot: "fit_data ?s1 ! j = Rows rs" and n: "csv_name name = csv_name name'"
    and df: "df = concat_frames rs"
    by auto
  from n have name: "name' = name" by (simp add: csv_name_inject)
  from inv obtain r0 r1 r2 r3 where fd: "fit_data ?s1 = [Rows r0, Rows r1, Rows r2, Rows r3]"
    and q: "list_all (?Q ''Exponential'') r0" "list_all (?Q ''Hyperbolic'') r1"
      "list_all (?Q ''ModifiedRachlin'') r2" "list_all (?Q ''Hyperboloid'') r3"
    unfolding slots_iff by blast
  have "list_all (?Q name) rs"
    using e slot q unfolding name fd by (auto simp: enumerate_model_list)
  then have "\<forall>df \<in> set rs. \<forall>r \<in> set (rows df). row_value (columns df) r ''model'' = Some (Str name)"
    by (simp add: list_all_iff)
  from concat_frames_keeps_value[OF this] row df
  show "row_value (columns df) row ''model'' = Some (Str name)" by simp
qed

theorem csv_rows_carry_model_name_witness:
  "(\<forall>fitted. ''model'' \<notin> fst ` set (mean_parameters demo_lib fitted))
   \<and> (\<exists>df row. (csv_name ''Hyperbolic'', df)
                   \<in> set (csv_writes (written (final_state (run_batch demo_lib demo_files))))
         \<and> row \<in> set (rows df)
         \<and> row_value (columns df) row ''model'' = Some (Str ''Hyperbolic''))"
proof -
  have h: "\<forall>fitted. ''model'' \<notin> fst ` set (mean_parameters demo_lib fitted)"
    by (simp add: demo_lib_def demo_parameters_def)
  have "list_ex (\<lambda>(path, df). path = csv_name ''Hyperbolic'' \<and> rows df \<noteq> [])
          (csv_writes (written (final_state (run_batch demo_lib demo_files))))"
    by code_simp
  then obtain df where df: "(csv_name ''Hyperbolic'', df)
                   \<in> set (csv_writes (written (final_state (run_batch demo_lib demo_files))))"
    and "rows df \<noteq> []"
    by (auto simp: list_ex_iff)
  then obtain row where row: "row \<in> set (rows df)"
    by (cases "rows df") auto
  from csv_rows_carry_model_name[of demo_lib demo_files] h df row
  have "row_value (columns df) row ''model'' = Some (Str ''Hyperbolic'')"
    by blast
  with h df row show ?thesis by blast
qed

text \<open>
  Claim C2, at the empty list of files. No file is processed, so no fit fails; the
  export loop then asks \<^verbatim>\<open>pd.concat\<close> for the concatenation of an empty list, which
  raises, and no table is written: the four tables with as many rows as there are
  files do not exist.
\<close>

theorem empty_file_list_raises:
  "run_batch demo_lib [] = Raised (ValueError ''No objects to concatenate'') initial_state
   \<and> csv_writes (written (final_state (run_batch demo_lib []))) = []"
  by (simp add: run_batch_def initial_state_def enumerate_model_list pd_concat_def)

text \<open>
  Claim C2, for a list that is not empty. When every file of a non-empty list is
  processed without an exception (its name parses, its data loads, every model is
  built and fitted, and the comparison succeeds), the run completes, the tables it
  writes are the four per-model tables, and each of them has exactly as many rows as
  there are files.
\<close>

theorem csv_row_count:
  "files \<noteq> [] \<and> (\<forall>fname \<in> set files. file_ok lib fname) \<longrightarrow>
   (\<exists>s t0 t1 t2 t3.
      run_batch lib files = Completed () s
      \<and> csv_writes (written s)
          = [(''parameter_estimation_Exponential.csv'', t0),
             (''parameter_estimation_Hyperbolic.csv'', t1),
             (''parameter_estimation_ModifiedRachlin.csv'', t2),
             (''parameter_estimation_Hyperboloid.csv'', t3)]
      \<and> length (rows t0) = length files \<and> length (rows t1) = length files
      \<and> length (rows t2) = length files \<and> length (rows t3) = length files)"
proof
  assume "files \<noteq> [] \<and> (\<forall>fname \<in> set files. file_ok lib fname)"
  then have ne: "files \<noteq> []" and ok: "\<forall>fname \<in> set files. file_ok lib fname" by simp_all
  have "fit_data (initial_state :: ('a, 'b, 'c, 'd) state) = [Rows [], Rows [], Rows [], Rows []]"
    by (simp add: initial_state_def)
  from for_files_success[OF ok this]
  obtain s1 q0 q1 q2 q3 where
    loop: "for_files lib files initial_state = Completed () s1"
    and fd: "fit_data s1 = [Rows q0, Rows q1, Rows q2, Rows q3]"
    and len: "length q0 = length files" "length q1 = length files"
             "length q2 = length files" "length q3 = length files"
    by auto
  let ?Q = "\<lambda>(name :: string) (df :: 'a dataframe). length (rows df) = 1"
  have "slots ?Q (final_state (for_files lib files initial_state))"
    by (rule slots_for_files[OF slots_initial_state])
       (simp add: fit_row_def from_dict_def Let_def)
  then have one: "\<forall>df \<in> set q0. length (rows df) = 1" "\<forall>df \<in> set q1. length (rows df) = 1"
    "\<forall>df \<in> set q2. length (rows df) = 1" "\<forall>df \<in> set q3. length (rows df) = 1"
    using loop fd by (simp_all add: slots_iff list_all_iff)
  have nonempty: "q0 \<noteq> []" "q1 \<noteq> []" "q2 \<noteq> []" "q3 \<noteq> []"
    using len ne by auto
  have none: "csv_writes (written s1) = []"
    using for_files_csv_writes[of lib files initial_state] loop by (simp add: initial_state_def)
  let ?s = "s1\<lparr>fit_data := [Table (concat_frames q0), Table (concat_frames q1),
                             Table (concat_frames q2), Table (concat_frames q3)],
                written := written s1 @
                  [(csv_name ''Exponential'', Csv (concat_frames q0)),
                   (csv_name ''Hyperbolic'', Csv (concat_frames q1)),
                   (csv_name ''ModifiedRachlin'', Csv (concat_frames q2)),
                   (csv_name ''Hyperboloid'', Csv (concat_frames q3))]\<rparr>"
  have run: "run_batch lib files = Completed () ?s"
    using loop export_success[OF fd nonempty, of lib] by (simp add: run_batch_def)
  have writes: "csv_writes (written ?s)
          = [(''parameter_estimation_Exponential.csv'', concat_frames q0),
             (''parameter_estimation_Hyperbolic.csv'', concat_frames q1),
             (''parameter_estimation_ModifiedRachlin.csv'', concat_frames q2),
             (''parameter_estimation_Hyperboloid.csv'', concat_frames q3)]"
    using none by (simp add: csv_writes_append csv_name_def)
  have "length (rows (concat_frames q0)) = length files" "length (rows (concat_frames q1)) = length files"
    "length (rows (concat_frames q2)) = length files" "length (rows (concat_frames q3)) = length files"
    using one len by (simp_all add: concat_frames_single_rows(1))
  with run writes show "\<exists>s t0 t1 t2 t3.
      run_batch lib files = Completed () s
      \<and> csv_writes (written s)
          = [(''parameter_estimation_Exponential.csv'', t0),
             (''parameter_estimation_Hyperbolic.csv'', t1),
             (''parameter_estimation_ModifiedRachlin.csv'', t2),
             (''parameter_estimation_Hyperboloid.csv'', t3)]
      \<and> length (rows t0) = length files \<and> length (rows t1) = length files
      \<and> length (rows t2) = length files \<and> length (rows t3) = length files"
    by blast
qed

theorem csv_row_count_witness:
  "demo_files \<noteq> [] \<and> list_all (file_ok demo_lib) demo_files
   \<and> (\<exists>s t0 t1 t2 t3.
      run_batch demo_lib demo_files = Completed () s
      \<and> csv_writes (written s)
          = [(''parameter_estimation_Exponential.csv'', t0),
             (''parameter_estimation_Hyperbolic.csv'', t1),
             (''parameter_estimation_ModifiedRachlin.csv'', t2),
             (''parameter_estimation_Hyperboloid.csv'', t3)]
      \<and> length (rows t0) = 2 \<and> length (rows t1) = 2
      \<and> length (rows t2) = 2 \<and> length (rows t3) = 2)"
proof -
  have h1: "demo_files \<noteq> []" by (simp add: demo_files_def)
  have h2: "list_all (file_ok demo_lib) demo_files" by code_simp
  then have h2': "\<forall>fname \<in> set demo_files. file_ok demo_lib fname"
    by (simp add: list_all_iff)
  have l: "length demo_files = 2" by (simp add: demo_files_def)
  from csv_row_count[of demo_files demo_lib] h1 h2' h2 show ?thesis
    unfolding l by blast
qed

text \<open>
  Claim C3, at the empty list of files. The export loop raises at its first
  \<^verbatim>\<open>pd.concat\<close>, before any \<^verbatim>\<open>to_csv\<close>: the run writes no table at all, not one per
  discount function.
\<close>

theorem no_csv_for_empty_file_list:
  "map fst (csv_writes (written (final_state (run_batch demo_lib [])))) = []"
  by (simp add: run_batch_def initial_state_def enumerate_model_list pd_concat_def)

text \<open>
  Claim C3, for a list that is not empty. A run that processes every file of a
  non-empty list without an exception writes exactly four tables, one per discount
  function, to
  \<^verbatim>\<open>parameter_estimation_<model>.csv\<close>, in the order of \<^verbatim>\<open>model_list\<close>. When the fitted
  models of a discount function report the parameters \<open>parameter_columns name\<close> (distinct
  names, none of them one of the eight fixed columns), the table of that function
  has the columns \<^verbatim>\<open>id\<close>, \<^verbatim>\<open>commodity\<close>, \<^verbatim>\<open>condition\<close>, \<^verbatim>\<open>model\<close>, \<^verbatim>\<open>log_loss\<close>, \<^verbatim>\<open>AUC\<close>,
  \<^verbatim>\<open>WAIC\<close>, \<^verbatim>\<open>roc_auc\<close> followed by those parameters, and every row has an entry for
  each column. The table is in long format: it has one row per file, in the order of
  the files, and the row of a file holds the initials, the commodity and the
  condition of the file's name and the name of the discount function.
\<close>

theorem one_csv_per_model_with_columns:
  "files \<noteq> [] \<and> (\<forall>fname \<in> set files. file_ok lib fname)
   \<and> (\<forall>name build data built fitted.
         (name, build) \<in> set (model_list lib) \<and> build data = Inr built
         \<and> fit lib built sample_options = Inr fitted
         \<longrightarrow> map fst (mean_parameters lib fitted) = parameter_columns name
             \<and> distinct (parameter_columns name)
             \<and> set (parameter_columns name)
                 \<inter> set [''id'', ''commodity'', ''condition'', ''model'', ''log_loss'', ''AUC'',
                        ''WAIC'', ''roc_auc''] = {})
   \<longrightarrow>
   (\<exists>s. run_batch lib files = Completed () s
      \<and> map fst (csv_writes (written s))
          = [''parameter_estimation_Exponential.csv'',
             ''parameter_estimation_Hyperbolic.csv'',
             ''parameter_estimation_ModifiedRachlin.csv'',
             ''parameter_estimation_Hyperboloid.csv'']
      \<and> (\<forall>name t. (csv_name name, t) \<in> set (csv_writes (written s))
            \<longrightarrow> columns t = [''id'', ''commodity'', ''condition'', ''model'', ''log_loss'', ''AUC'',
                              ''WAIC'', ''roc_auc''] @ parameter_columns name
                \<and> (\<forall>row \<in> set (rows t). length row = length (columns t))
                \<and> length (rows t) = length files
                \<and> (\<forall>k initials commodity condition.
                      k < length files
                      \<and> parse_filename (files ! k) = Inr (initials, commodity, condition)
                      \<longrightarrow> row_value (columns t) (rows t ! k) ''id'' = Some (Str initials)
                          \<and> row_value (columns t) (rows t ! k) ''commodity'' = Some (Str commodity)
                          \<and> row_value (columns t) (rows t ! k) ''condition'' = Some (Str condition)
                          \<and> row_value (columns t) (rows t ! k) ''model'' = Some (Str name))))"
proof
  let ?fixed = "[''id'', ''commodity'', ''condition'', ''model'', ''log_loss'', ''AUC'',
                 ''WAIC'', ''roc_auc'']"
  assume "files \<noteq> [] \<and> (\<forall>fname \<in> set files. file_ok lib fname)
   \<and> (\<forall>name build data built fitted.
         (name, build) \<in> set (model_list lib) \<and> build data = Inr built
         \<and> fit lib built sample_options = Inr fitted
         \<longrightarrow> map fst (mean_parameters lib fitted) = parameter_columns name
             \<and> distinct (parameter_columns name)
             \<and> set (parameter_columns name) \<inter> set ?fixed = {})"
  then have ne: "files \<noteq> []" and ok: "\<forall>fname \<in> set files. file_ok lib fname"
    and params: "\<And>name build data built fitted.
         (name, build) \<in> set (model_list lib) \<Longrightarrow> build data = Inr built
         \<Longrightarrow> fit lib built sample_options = Inr fitted
         \<Longrightarrow> map fst (mean_parameters lib fitted) = parameter_columns name
             \<and> distinct (parameter_columns name)
             \<and> set (parameter_columns name) \<inter> set ?fixed = {}"
    by blast+
  have "fit_data (initial_state :: ('a, 'b, 'c, 'd) state) = [Rows [], Rows [], Rows [], Rows []]"
    by (simp add: initial_state_def)
  from for_files_rows[OF ok this]
  obtain s1 q0 q1 q2 q3 where
    loop: "for_files lib files initial_state = Completed () s1"
    and fd: "fit_data s1 = [Rows q0, Rows q1, Rows q2, Rows q3]"
    and from_files: "list_all2 (row_of_file lib ''Exponential'') files q0"
      "list_all2 (row_of_file lib ''Hyperbolic'') files q1"
      "list_all2 (row_of_file lib ''ModifiedRachlin'') files q2"
      "list_all2 (row_of_file lib ''Hyperboloid'') files q3"
    by auto
  have len: "length q0 = length files" "length q1 = length files"
    "length q2 = length files" "length q3 = length files"
    using from_files by (metis list_all2_lengthD)+
  let ?Q = "\<lambda>name df. distinct (?fixed @ parameter_columns name)
              \<and> columns df = ?fixed @ parameter_columns name
              \<and> (\<forall>row \<in> set (rows df). length row = length (columns df))"
  have "slots ?Q (final_state (for_files lib files initial_state))"
  proof (rule slots_for_files[OF slots_initial_state])
    fix initials commodity condition name build data built fitted
    assume "(name, build) \<in> set (model_list lib)" "build data = Inr built"
      "fit lib built sample_options = Inr fitted"
    from params[OF this]
    have k: "map fst (mean_parameters lib fitted) = parameter_columns name"
      and d: "distinct (parameter_columns name)"
      and i: "set (parameter_columns name) \<inter> set ?fixed = {}"
      by blast+
    have "columns (fit_row lib initials commodity condition name fitted)
            = ?fixed @ map fst (mean_parameters lib fitted)"
      by (rule fit_row_columns) (use k d i in simp_all)
    moreover have "distinct (?fixed @ parameter_columns name)"
      using d i by auto
    moreover have "\<forall>row \<in> set (rows (fit_row lib initials commodity condition name fitted)).
             length row = length (columns (fit_row lib initials commodity condition name fitted))"
      using rows_fit_row[of lib initials commodity condition name fitted] by auto
    ultimately show "?Q name (fit_row lib initials commodity condition name fitted)"
      using k by simp
  qed
  then have q: "list_all (?Q ''Exponential'') q0" "list_all (?Q ''Hyperbolic'') q1"
    "list_all (?Q ''ModifiedRachlin'') q2" "list_all (?Q ''Hyperboloid'') q3"
    using loop fd by (simp_all add: slots_iff)
  have nonempty: "q0 \<noteq> []" "q1 \<noteq> []" "q2 \<noteq> []" "q3 \<noteq> []"
    using len ne by auto
  have table: "columns (concat_frames rs) = ?fixed @ parameter_columns name
         \<and> (\<forall>row \<in> set (rows (concat_frames rs)). length row = length (columns (concat_frames rs)))"
    if "rs \<noteq> []" "list_all (?Q name) rs" for rs name
  proof (rule concat_frames_columns[OF that(1)])
    from that obtain df where "df \<in> set rs" by (cases rs) auto
    with that(2) show "distinct (?fixed @ parameter_columns name)"
      by (auto simp: list_all_iff)
    from that(2) show "list_all (\<lambda>df. columns df = ?fixed @ parameter_columns name
         \<and> (\<forall>row \<in> set (rows df). length row = length (columns df))) rs"
      by (auto simp: list_all_iff)
  qed
  have long: "length (rows (concat_frames rs)) = length files
         \<and> (\<forall>k initials commodity condition.
                k < length files
                \<and> parse_filename (files ! k) = Inr (initials, commodity, condition)
                \<longrightarrow> row_value (columns (concat_frames rs)) (rows (concat_frames rs) ! k) ''id''
                      = Some (Str initials)
                    \<and> row_value (columns (concat_frames rs)) (rows (concat_frames rs) ! k) ''commodity''
                      = Some (Str commodity)
                    \<and> row_value (columns (concat_frames rs)) (rows (concat_frames rs) ! k) ''condition''
                      = Some (Str condition)
                    \<and> row_value (columns (concat_frames rs)) (rows (concat_frames rs) ! k) ''model''
                      = Some (Str name))"
    if rows_of: "list_all2 (row_of_file lib name) files rs" for rs name
  proof -
    have l: "length rs = length files"
      using rows_of by (simp add: list_all2_lengthD)
    have at: "row_of_file lib name (files ! k) (rs ! k)" if "k < length files" for k
      using rows_of that by (simp add: list_all2_conv_all_nth)
    have one: "\<forall>df \<in> set rs. length (rows df) = 1"
    proof
      fix df
      assume "df \<in> set rs"
      then obtain k where "k < length rs" "df = rs ! k" by (auto simp: in_set_conv_nth)
      with at[of k] l show "length (rows df) = 1"
        by (auto simp: row_of_file_def fit_row_def from_dict_def Let_def)
    qed
    have entry: "row_value (columns (concat_frames rs)) (rows (concat_frames rs) ! k) c
                   = Some (Str v)"
      if k: "k < length files"
        and p: "parse_filename (files ! k) = Inr (initials, commodity, condition)"
        and c: "(c, v) \<in> {(''id'', initials), (''commodity'', commodity),
                           (''condition'', condition), (''model'', name)}"
      for k initials commodity condition c v
    proof -
      from at[OF k] p obtain build data built fitted where
        b: "(name, build) \<in> set (model_list lib)" "build data = Inr built"
          "fit lib built sample_options = Inr fitted"
        and df: "rs ! k = fit_row lib initials commodity condition name fitted"
        by (auto simp: row_of_file_def)
      from params[OF b]
      have keys: "map fst (mean_parameters lib fitted) = parameter_columns name"
        and disj: "set (parameter_columns name) \<inter> set ?fixed = {}"
        by blast+
      have "fst ` set (mean_parameters lib fitted) = set (parameter_columns name)"
        using keys by (metis list.set_map)
      moreover have "c \<in> set ?fixed" using c by auto
      ultimately have "c \<notin> fst ` set (mean_parameters lib fitted)"
        using disj by blast
      from fit_row_fixed[OF this, of initials commodity condition name]
      obtain row where row: "rows (rs ! k) = [row]"
        and val: "row_value (columns (rs ! k)) row c
               = map_of [(''id'', Str initials), (''commodity'', Str commodity),
                         (''condition'', Str condition), (''model'', Str name),
                         (''log_loss'', Num (np_median lib (log_loss lib fitted))),
                         (''AUC'', Num (AUC lib fitted)), (''WAIC'', Num (WAIC lib fitted)),
                         (''roc_auc'', Num (roc_auc lib fitted))] c"
        unfolding df by blast
      from val c have "row_value (columns (rs ! k)) row c = Some (Str v)"
        by auto
      with concat_frames_keeps_rows[OF one, of k] row k l show ?thesis
        by auto
    qed
    show ?thesis
      using concat_frames_single_rows(1)[OF one] l entry by auto
  qed
  have none: "csv_writes (written s1) = []"
    using for_files_csv_writes[of lib files initial_state] loop by (simp add: initial_state_def)
  let ?s = "s1\<lparr>fit_data := [Table (concat_frames q0), Table (concat_frames q1),
                             Table (concat_frames q2), Table (concat_frames q3)],
                written := written s1 @
                  [(csv_name ''Exponential'', Csv (concat_frames q0)),
                   (csv_name ''Hyperbolic'', Csv (concat_frames q1)),
                   (csv_name ''ModifiedRachlin'', Csv (concat_frames q2)),
                   (csv_name ''Hyperboloid'', Csv (concat_frames q3))]\<rparr>"
  have run: "run_batch lib files = Completed () ?s"
    using loop export_success[OF fd nonempty, of lib] by (simp add: run_batch_def)
  have writes: "csv_writes (written ?s)
          = [(csv_name ''Exponential'', concat_frames q0),
             (csv_name ''Hyperbolic'', concat_frames q1),
             (csv_name ''ModifiedRachlin'', concat_frames q2),
             (csv_name ''Hyperboloid'', concat_frames q3)]"
    using none by (simp add: csv_writes_append)
  have names: "map fst (csv_writes (written ?s))
          = [''parameter_estimation_Exponential.csv'',
             ''parameter_estimation_Hyperbolic.csv'',
             ''parameter_estimation_ModifiedRachlin.csv'',
             ''parameter_estimation_Hyperboloid.csv'']"
    unfolding writes by (simp add: csv_name_def)
  have cols: "columns t = ?fixed @ parameter_columns name
                \<and> (\<forall>row \<in> set (rows t). length row = length (columns t))
                \<and> length (rows t) = length files
                \<and> (\<forall>k initials commodity condition.
                      k < length files
                      \<and> parse_filename (files ! k) = Inr (initials, commodity, condition)
                      \<longrightarrow> row_value (columns t) (rows t ! k) ''id'' = Some (Str initials)
                          \<and> row_value (columns t) (rows t ! k) ''commodity'' = Some (Str commodity)
                          \<and> row_value (columns t) (rows t ! k) ''condition'' = Some (Str condition)
                          \<and> row_value (columns t) (rows t ! k) ''model'' = Some (Str name))"
    if "(csv_name name, t) \<in> set (csv_writes (written ?s))" for name t
  proof -
    from that consider "name = ''Exponential''" "t = concat_frames q0"
      | "name = ''Hyperbolic''" "t = concat_frames q1"
      | "name = ''ModifiedRachlin''" "t = concat_frames q2"
      | "name = ''Hyperboloid''" "t = concat_frames q3"
      unfolding writes by (auto simp: csv_name_inject)
    then show ?thesis
    proof cases
      case 1
      with table[OF nonempty(1) q(1)] long[OF from_files(1)] show ?thesis by simp
    next
      case 2
      with table[OF nonempty(2) q(2)] long[OF from_files(2)] show ?thesis by simp
    next
      case 3
      with table[OF nonempty(3) q(3)] long[OF from_files(3)] show ?thesis by simp
    next
      case 4
      with table[OF nonempty(4) q(4)] long[OF from_files(4)] show ?thesis by simp
    qed
  qed
  show "\<exists>s. run_batch lib files = Completed () s
      \<and> map fst (csv_writes (written s))
          = [''parameter_estimation_Exponential.csv'',
             ''parameter_estimation_Hyperbolic.csv'',
             ''parameter_estimation_ModifiedRachlin.csv'',
             ''parameter_estimation_Hyperboloid.csv'']
      \<and> (\<forall>name t. (csv_name name, t) \<in> set (csv_writes (written s))
            \<longrightarrow> columns t = ?fixed @ parameter_columns name
                \<and> (\<forall>row \<in> set (rows t). length row = length (columns t))
                \<and> length (rows t) = length files
                \<and> (\<forall>k initials commodity condition.
                      k < length files
                      \<and> parse_filename (files ! k) = Inr (initials, commodity, condition)
                      \<longrightarrow> row_value (columns t) (rows t ! k) ''id'' = Some (Str initials)
                          \<and> row_value (columns t) (rows t ! k) ''commodity'' = Some (Str commodity)
                          \<and> row_value (columns t) (rows t ! k) ''condition'' = Some (Str condition)
                          \<and> row_value (columns t) (rows t ! k) ''model'' = Some (Str name)))"
  proof (rule exI[of _ ?s], intro conjI)
    show "run_batch lib files = Completed () ?s" by (rule run)
    show "map fst (csv_writes (written ?s))
          = [''parameter_estimation_Exponential.csv'',
             ''parameter_estimation_Hyperbolic.csv'',
             ''parameter_estimation_ModifiedRachlin.csv'',
             ''parameter_estimation_Hyperboloid.csv'']" by (rule names)
    show "\<forall>name t. (csv_name name, t) \<in> set (csv_writes (written ?s))
            \<longrightarrow> columns t = ?fixed @ parameter_columns name
                \<and> (\<forall>row \<in> set (rows t). length row = length (columns t))
                \<and> length (rows t) = length files
                \<and> (\<forall>k initials commodity condition.
                      k < length files
                      \<and> parse_filename (files ! k) = Inr (initials, commodity, condition)
                      \<longrightarrow> row_value (columns t) (rows t ! k) ''id'' = Some (Str initials)
                          \<and> row_value (columns t) (rows t ! k) ''commodity'' = Some (Str commodity)
                          \<and> row_value (columns t) (rows t ! k) ''condition'' = Some (Str condition)
                          \<and> row_value (columns t) (rows t ! k) ''model'' = Some (Str name))"
      using cols by blast
  qed
qed

theorem one_csv_per_model_with_columns_witness:
  "demo_files \<noteq> [] \<and> list_all (file_ok demo_lib) demo_files
   \<and> (\<forall>mdl. map fst (mean_parameters demo_lib mdl) = demo_parameter_columns (fst mdl))
   \<and> (\<forall>name. distinct (demo_parameter_columns name))
   \<and> (\<forall>name. set (demo_parameter_columns name)
                 \<inter> set [''id'', ''commodity'', ''condition'', ''model'', ''log_loss'', ''AUC'',
                        ''WAIC'', ''roc_auc''] = {})
   \<and> parse_filename (demo_files ! 1) = Inr (''JS'', ''money'', ''fed'')
   \<and> (\<exists>s t. run_batch demo_lib demo_files = Completed () s
         \<and> (csv_name ''ModifiedRachlin'', t) \<in> set (csv_writes (written s))
         \<and> columns t = [''id'', ''commodity'', ''condition'', ''model'', ''log_loss'', ''AUC'',
                        ''WAIC'', ''roc_auc'', ''logk'', ''s'']
         \<and> length (rows t) = 2
         \<and> row_value (columns t) (rows t ! 1) ''id'' = Some (Str ''JS'')
         \<and> row_value (columns t) (rows t ! 1) ''commodity'' = Some (Str ''money'')
         \<and> row_value (columns t) (rows t ! 1) ''condition'' = Some (Str ''fed'')
         \<and> row_value (columns t) (rows t ! 1) ''model'' = Some (Str ''ModifiedRachlin''))"
proof -
  have h1: "demo_files \<noteq> []" by (simp add: demo_files_def)
  have ok: "list_all (file_ok demo_lib) demo_files" by code_simp
  then have h2: "\<forall>fname \<in> set demo_files. file_ok demo_lib fname"
    by (simp add: list_all_iff)
  have keys: "\<forall>mdl. map fst (mean_parameters demo_lib mdl) = demo_parameter_columns (fst mdl)"
    by (simp add: demo_lib_def demo_parameters_def demo_parameter_columns_def)
  have dist: "\<forall>name. distinct (demo_parameter_columns name)"
    by (simp add: demo_parameter_columns_def)
  have disj: "\<forall>name. set (demo_parameter_columns name)
                 \<inter> set [''id'', ''commodity'', ''condition'', ''model'', ''log_loss'', ''AUC'',
                        ''WAIC'', ''roc_auc''] = {}"
    by (simp add: demo_parameter_columns_def)
  have built: "fst fitted = name"
    if "(name, build) \<in> set (model_list demo_lib)" "build data = Inr built"
      "fit demo_lib built sample_options = Inr fitted" for name build data built fitted
    using that by (auto simp: model_list_def demo_lib_def)
  have h3: "\<forall>name build data built fitted.
         (name, build) \<in> set (model_list demo_lib) \<and> build data = Inr built
         \<and> fit demo_lib built sample_options = Inr fitted
         \<longrightarrow> map fst (mean_parameters demo_lib fitted) = demo_parameter_columns name
             \<and> distinct (demo_parameter_columns name)
             \<and> set (demo_parameter_columns name)
                 \<inter> set [''id'', ''commodity'', ''condition'', ''model'', ''log_loss'', ''AUC'',
                        ''WAIC'', ''roc_auc''] = {}"
    using keys dist disj built by metis
  have p: "parse_filename (demo_files ! 1) = Inr (''JS'', ''money'', ''fed'')"
    by code_simp
  have l: "length demo_files = 2" by (simp add: demo_files_def)
  note concl = one_csv_per_model_with_columns[of demo_files demo_lib demo_parameter_columns,
      THEN mp, OF conjI[OF h1 conjI[OF h2 h3]]]
  then obtain s where run: "run_batch demo_lib demo_files = Completed () s"
    and names: "map fst (csv_writes (written s))
          = [''parameter_estimation_Exponential.csv'',
             ''parameter_estimation_Hyperbolic.csv'',
             ''parameter_estimation_ModifiedRachlin.csv'',
             ''parameter_estimation_Hyperboloid.csv'']"
    and cols: "\<forall>name t. (csv_name name, t) \<in> set (csv_writes (written s))
            \<longrightarrow> columns t = [''id'', ''commodity'', ''condition'', ''model'', ''log_loss'', ''AUC'',
                              ''WAIC'', ''roc_auc''] @ demo_parameter_columns name
                \<and> (\<forall>row \<in> set (rows t). length row = length (columns t))
                \<and> length (rows t) = length demo_files
                \<and> (\<forall>k initials commodity condition.
                      k < length demo_files
                      \<and> parse_filename (demo_files ! k) = Inr (initials, commodity, condition)
                      \<longrightarrow> row_value (columns t) (rows t ! k) ''id'' = Some (Str initials)
                          \<and> row_value (columns t) (rows t ! k) ''commodity'' = Some (Str commodity)
                          \<and> row_value (columns t) (rows t ! k) ''condition'' = Some (Str condition)
                          \<and> row_value (columns t) (rows t ! k) ''model'' = Some (Str name))"
    by (elim exE conjE)
  have "csv_name ''ModifiedRachlin'' \<in> set (map fst (csv_writes (written s)))"
    unfolding names by (simp add: csv_name_def)
  then obtain t where t: "(csv_name ''ModifiedRachlin'', t) \<in> set (csv_writes (written s))"
    by auto
  from cols[rule_format, OF t]
  have c: "columns t = [''id'', ''commodity'', ''condition'', ''model'', ''log_loss'', ''AUC'',
                        ''WAIC'', ''roc_auc''] @ demo_parameter_columns ''ModifiedRachlin''"
    and n: "length (rows t) = length demo_files"
    and r: "\<forall>k initials commodity condition.
                      k < length demo_files
                      \<and> parse_filename (demo_files ! k) = Inr (initials, commodity, condition)
                      \<longrightarrow> row_value (columns t) (rows t ! k) ''id'' = Some (Str initials)
                          \<and> row_value (columns t) (rows t ! k) ''commodity'' = Some (Str commodity)
                          \<and> row_value (columns t) (rows t ! k) ''condition'' = Some (Str condition)
                          \<and> row_value (columns t) (rows t ! k) ''model'' = Some (Str ''ModifiedRachlin'')"
    by blast+
  from c have c': "columns t = [''id'', ''commodity'', ''condition'', ''model'', ''log_loss'', ''AUC'',
                        ''WAIC'', ''roc_auc'', ''logk'', ''s'']"
    by (simp add: demo_parameter_columns_def)
  from n l have n': "length (rows t) = 2" by simp
  have "(1::nat) < length demo_files" using l by simp
  with r p have r': "row_value (columns t) (rows t ! 1) ''id'' = Some (Str ''JS'')
         \<and> row_value (columns t) (rows t ! 1) ''commodity'' = Some (Str ''money'')
         \<and> row_value (columns t) (rows t ! 1) ''condition'' = Some (Str ''fed'')
         \<and> row_value (columns t) (rows t ! 1) ''model'' = Some (Str ''ModifiedRachlin'')"
    by blast
  from run t c' n' r' have "\<exists>s t. run_batch demo_lib demo_files = Completed () s
         \<and> (csv_name ''ModifiedRachlin'', t) \<in> set (csv_writes (written s))
         \<and> columns t = [''id'', ''commodity'', ''condition'', ''model'', ''log_loss'', ''AUC'',
                        ''WAIC'', ''roc_auc'', ''logk'', ''s'']
         \<and> length (rows t) = 2
         \<and> row_value (columns t) (rows t ! 1) ''id'' = Some (Str ''JS'')
         \<and> row_value (columns t) (rows t ! 1) ''commodity'' = Some (Str ''money'')
         \<and> row_value (columns t) (rows t ! 1) ''condition'' = Some (Str ''fed'')
         \<and> row_value (columns t) (rows t ! 1) ''model'' = Some (Str ''ModifiedRachlin'')"
    by blast
  with h1 ok keys dist disj p show ?thesis by (intro conjI)
qed



end
